theory Spec2Isabelle
  imports Complex_Main
begin

section \<open>Errors\<close>

text \<open>
  The Python exceptions that the modelled code can raise.  Every fallible operation
  returns \<open>error + 'a\<close>, with \<open>Inl\<close> for the raised exception.
\<close>

datatype error =
    KeyError string
  | IndexError
  | ValueError
  | NameError string
  | AttributeError string
  | RuntimeError

section \<open>Dataset item retrieval\<close>

text \<open>
  \<^verbatim>\<open>PairedAndUnsupervisedDataset\<close> (identical in both training scripts).  Its attribute
  \<^verbatim>\<open>self.R\<close> is the numpy \<^verbatim>\<open>RandomState\<close> of monai's \<^verbatim>\<open>Randomizable\<close>; numpy is
  not part of the repository, so the generator is a parameter: \<open>np_seed n\<close> is the
  state that \<^verbatim>\<open>R.seed(n)\<close> installs and \<open>np_randint lo hi r\<close> is one
  \<^verbatim>\<open>R.randint(lo, hi)\<close> draw from state \<open>r\<close>, with the state after the draw.
\<close>

record 'r random_state =
  np_seed :: "nat \<Rightarrow> 'r"
  np_randint :: "nat \<Rightarrow> nat \<Rightarrow> 'r \<Rightarrow> nat \<times> 'r"

text \<open>
  The dataset object: \<^verbatim>\<open>keys\<close>, \<^verbatim>\<open>data\<close> (one list of file names per key) and the
  optional \<^verbatim>\<open>transform\<close>.  The transform pipeline carries random state of its own
  (\<^verbatim>\<open>RandFlipd\<close>), of type \<open>'w\<close>.
\<close>

type_synonym item = "string \<rightharpoonup> string"

record ('w, 'o) dataset =
  keys :: "string list"
  data :: "string list list"
  transform :: "(item \<Rightarrow> 'w \<Rightarrow> (error + 'o) \<times> 'w) option"
  length_opt :: "nat option"
  batch_size :: nat

text \<open>Python list indexing with a non-negative index: out of range raises IndexError.\<close>

definition getitem :: "'a list \<Rightarrow> nat \<Rightarrow> error + 'a" where
  "getitem xs i = (if i < length xs then Inr (xs ! i) else Inl IndexError)"

text \<open>
  \<^verbatim>\<open>R.seed(index)\<close> accepts 0 .. 2**32 - 1 and raises ValueError otherwise;
  \<^verbatim>\<open>R.randint(0, n)\<close> raises ValueError when \<open>n = 0\<close>.
\<close>

definition seed_R :: "'r random_state \<Rightarrow> int \<Rightarrow> error + 'r" where
  "seed_R ops index =
     (if 0 \<le> index \<and> index < 2 ^ 32 then Inr (np_seed ops (nat index)) else Inl ValueError)"

definition randint_R :: "'r random_state \<Rightarrow> nat \<Rightarrow> 'r \<Rightarrow> error + nat \<times> 'r" where
  "randint_R ops n r = (if n = 0 then Inl ValueError else Inr (np_randint ops 0 n r))"

text \<open>
  The first part of \<^verbatim>\<open>_transform\<close>, up to the filled dictionary \<^verbatim>\<open>data\<close>.  The locals
  \<^verbatim>\<open>rand_idx\<close> and \<^verbatim>\<open>rand_idy\<close> are returned beside the dictionary.  The generator
  state \<open>r\<close> is the state of \<^verbatim>\<open>self.R\<close> at the call; an exception leaves the state
  reached so far.
\<close>

definition select_files ::
  "'r random_state \<Rightarrow> ('w, 'o) dataset \<Rightarrow> int \<Rightarrow> 'r \<Rightarrow> (error + nat \<times> nat \<times> item) \<times> 'r" where
  "select_files ops ds index r =
     (case seed_R ops index of
        Inl e \<Rightarrow> (Inl e, r)
      | Inr r0 \<Rightarrow>
     (case getitem (data ds) 0 of
        Inl e \<Rightarrow> (Inl e, r0)
      | Inr images \<Rightarrow>
     (case randint_R ops (length images) r0 of
        Inl e \<Rightarrow> (Inl e, r0)
      | Inr (rand_idx, r1) \<Rightarrow>
     (case getitem (keys ds) 0 of
        Inl e \<Rightarrow> (Inl e, r1)
      | Inr k0 \<Rightarrow>
     (case getitem images rand_idx of
        Inl e \<Rightarrow> (Inl e, r1)
      | Inr img \<Rightarrow>
     (case getitem (keys ds) 1 of
        Inl e \<Rightarrow> (Inl e, r1)
      | Inr k1 \<Rightarrow>
     (case getitem (data ds) 1 of
        Inl e \<Rightarrow> (Inl e, r1)
      | Inr labels \<Rightarrow>
     (case getitem labels rand_idx of
        Inl e \<Rightarrow> (Inl e, r1)
      | Inr lbl \<Rightarrow>
     (case getitem (data ds) 2 of
        Inl e \<Rightarrow> (Inl e, r1)
      | Inr unsups \<Rightarrow>
     (case randint_R ops (length unsups) r1 of
        Inl e \<Rightarrow> (Inl e, r1)
      | Inr (rand_idy, r2) \<Rightarrow>
     (case getitem (keys ds) 2 of
        Inl e \<Rightarrow> (Inl e, r2)
      | Inr k2 \<Rightarrow>
     (case getitem unsups rand_idy of
        Inl e \<Rightarrow> (Inl e, r2)
      | Inr uns \<Rightarrow>
          (Inr (rand_idx, rand_idy, [k0 \<mapsto> img, k1 \<mapsto> lbl, k2 \<mapsto> uns]), r2)))))))))))))"

text \<open>
  \<^verbatim>\<open>_transform\<close>: the selection, then \<^verbatim>\<open>apply_transform\<close> when a transform is set.
  Without a transform the dictionary itself is returned; \<open>ret\<close> injects it into the
  output type.
\<close>

definition ds_transform ::
  "'r random_state \<Rightarrow> (item \<Rightarrow> 'o) \<Rightarrow> ('w, 'o) dataset \<Rightarrow> int \<Rightarrow> 'r \<times> 'w \<Rightarrow>
     (error + 'o) \<times> 'r \<times> 'w" where
  "ds_transform ops ret ds index st =
     (case select_files ops ds index (fst st) of
        (Inl e, r') \<Rightarrow> (Inl e, r', snd st)
      | (Inr (rand_idx, rand_idy, d), r') \<Rightarrow>
          (case transform ds of
             None \<Rightarrow> (Inr (ret d), r', snd st)
           | Some f \<Rightarrow> (case f d (snd st) of (res, w') \<Rightarrow> (res, r', w'))))"

text \<open>\<^verbatim>\<open>__len__\<close>.\<close>

definition ds_len :: "('w, 'o) dataset \<Rightarrow> error + nat" where
  "ds_len ds =
     (case length_opt ds of
        None \<Rightarrow> (if data ds = [] then Inl ValueError else Inr (Min (set (map length (data ds)))))
      | Some n \<Rightarrow> Inr n)"

text \<open>
  A small dataset and a counting generator, used to exercise the theorems on concrete
  inputs: seeding with \<open>n\<close> installs the counter \<open>n\<close>, and a draw from
  \<open>[lo, hi)\<close> returns \<open>lo\<close> plus the counter, capped at \<open>hi - 1\<close>.
\<close>

definition demo_R :: "nat random_state" where
  "demo_R = \<lparr>np_seed = (\<lambda>n. n), np_randint = (\<lambda>lo hi r. (lo + min r (hi - lo - 1), Suc r))\<rparr>"

definition demo_dataset :: "(unit, item) dataset" where
  "demo_dataset = \<lparr>keys = [''image'', ''label'', ''unsup''],
     data = [[''i0.png'', ''i1.png''], [''l0.png'', ''l1.png''], [''u0.png'', ''u1.png'', ''u2.png'']],
     transform = None, length_opt = Some 4, batch_size = 2\<rparr>"

section \<open>Dice + cross-entropy loss\<close>

text \<open>
  \<^verbatim>\<open>dice_coef_loss\<close> of \<^verbatim>\<open>loss_function/dice_loss.py\<close>, over the reals.  A tensor is
  its entry function together with the sizes of its axes: \<open>predictions b c h w\<close> is
  the entry of the \<^verbatim>\<open>[B, C, H, W]\<close> logits tensor and \<open>ground_truths b h w\<close> the
  class id of the \<^verbatim>\<open>[B, H, W]\<close> class map.  The model covers the calls in which
  \<^verbatim>\<open>predictions\<close> has \<^verbatim>\<open>num_classes\<close> channels and the batch and spatial sizes of
  the two arguments agree (other calls broadcast or raise inside torch); \<^verbatim>\<open>dims\<close>
  keeps its default \<^verbatim>\<open>(1, 2)\<close>.  The torch functions are written out from their
  documentation: \<^verbatim>\<open>F.one_hot\<close>, \<^verbatim>\<open>F.softmax(dim=1)\<close>, \<^verbatim>\<open>permute(0, 2, 3, 1)\<close>,
  \<^verbatim>\<open>sum(dim=(1, 2))\<close>, \<^verbatim>\<open>mean\<close> and \<^verbatim>\<open>F.cross_entropy\<close> (mean reduction).
\<close>

type_synonym logits = "nat \<Rightarrow> nat \<Rightarrow> nat \<Rightarrow> nat \<Rightarrow> real"
type_synonym class_map = "nat \<Rightarrow> nat \<Rightarrow> nat \<Rightarrow> nat"

definition one_hot :: "class_map \<Rightarrow> nat \<Rightarrow> nat \<Rightarrow> nat \<Rightarrow> nat \<Rightarrow> real" where
  "one_hot g b h w c = (if g b h w = c then 1 else 0)"

definition softmax :: "nat \<Rightarrow> logits \<Rightarrow> logits" where
  "softmax C x b c h w = exp (x b c h w) / (\<Sum>k<C. exp (x b k h w))"

definition permute :: "logits \<Rightarrow> nat \<Rightarrow> nat \<Rightarrow> nat \<Rightarrow> nat \<Rightarrow> real" where
  "permute x b h w c = x b c h w"

definition sum_dims :: "nat \<Rightarrow> nat \<Rightarrow> (nat \<Rightarrow> nat \<Rightarrow> nat \<Rightarrow> nat \<Rightarrow> real) \<Rightarrow> nat \<Rightarrow> nat \<Rightarrow> real" where
  "sum_dims H W x b c = (\<Sum>h<H. \<Sum>w<W. x b h w c)"

definition intersection :: "nat \<Rightarrow> nat \<Rightarrow> nat \<Rightarrow> logits \<Rightarrow> class_map \<Rightarrow> nat \<Rightarrow> nat \<Rightarrow> real" where
  "intersection H W C predictions ground_truths =
     sum_dims H W (\<lambda>b h w c. permute (softmax C predictions) b h w c * one_hot ground_truths b h w c)"

definition summation :: "nat \<Rightarrow> nat \<Rightarrow> nat \<Rightarrow> logits \<Rightarrow> class_map \<Rightarrow> nat \<Rightarrow> nat \<Rightarrow> real" where
  "summation H W C predictions ground_truths b c =
     sum_dims H W (permute (softmax C predictions)) b c + sum_dims H W (one_hot ground_truths) b c"

definition dice :: "nat \<Rightarrow> nat \<Rightarrow> nat \<Rightarrow> logits \<Rightarrow> class_map \<Rightarrow> real \<Rightarrow> nat \<Rightarrow> nat \<Rightarrow> real" where
  "dice H W C predictions ground_truths smooth b c =
     (2 * intersection H W C predictions ground_truths b c + smooth) /
     (summation H W C predictions ground_truths b c + smooth)"

definition cross_entropy :: "nat \<Rightarrow> nat \<Rightarrow> nat \<Rightarrow> nat \<Rightarrow> logits \<Rightarrow> class_map \<Rightarrow> real" where
  "cross_entropy B H W C x g =
     (\<Sum>b<B. \<Sum>h<H. \<Sum>w<W. - ln (exp (x b (g b h w) h w) / (\<Sum>k<C. exp (x b k h w)))) /
     real (B * H * W)"

text \<open>
  \<^verbatim>\<open>F.one_hot\<close> raises when a class id is not below \<^verbatim>\<open>num_classes\<close>.  A mean over
  no elements and a division by zero give a NaN (or an infinity), which is the result
  \<open>Inr None\<close>; every other call returns \<open>Inr (Some loss)\<close>.
\<close>

definition dice_coef_loss ::
  "nat \<Rightarrow> nat \<Rightarrow> nat \<Rightarrow> logits \<Rightarrow> class_map \<Rightarrow> nat \<Rightarrow> real \<Rightarrow> error + real option" where
  "dice_coef_loss B H W predictions ground_truths num_classes smooth =
     (if \<exists>b<B. \<exists>h<H. \<exists>w<W. num_classes \<le> ground_truths b h w then Inl RuntimeError
      else if B * num_classes = 0 \<or> B * H * W = 0 \<or>
              (\<exists>b<B. \<exists>c<num_classes. summation H W num_classes predictions ground_truths b c + smooth = 0)
      then Inr None
      else
        let dice_mean =
              (\<Sum>b<B. \<Sum>c<num_classes. dice H W num_classes predictions ground_truths smooth b c) /
              real (B * num_classes);
            CE = cross_entropy B H W num_classes predictions ground_truths
        in Inr (Some ((1 - dice_mean) + CE)))"

section \<open>Tensors, execution state and external collaborators\<close>

text \<open>
  A torch tensor is its shape and its entries in row-major order, over the reals.
  A batch is the dictionary handed to a step.
\<close>

record tensor =
  shape :: "nat list"
  vals :: "real list"

type_synonym batch = "string \<rightharpoonup> tensor"

text \<open>\<^verbatim>\<open>x * a + b\<close> with scalars \<open>a\<close> and \<open>b\<close>, entry by entry.\<close>

definition scale_shift :: "real \<Rightarrow> real \<Rightarrow> tensor \<Rightarrow> tensor" where
  "scale_shift a b x = x\<lparr>vals := map (\<lambda>v. v * a + b) (vals x)\<rparr>"

text \<open>
  The timestep argument of a network: a tensor of one timestep per sample, or the scalar
  \<^verbatim>\<open>t\<close> of the sampling loop.
\<close>

datatype tsteps = PerSample "nat list" | Scalar nat

datatype net =
    Diffusion
  | DiffusionImage
  | DiffusionLabel
  | DiffusionFromImageToLabel
  | DiffusionFromLabelToImage

text \<open>
  What a step does besides returning: it invokes networks and the scheduler's
  \<^verbatim>\<open>step\<close>, composes the grid of the visualization (\<^verbatim>\<open>torch.cat\<close>,
  \<^verbatim>\<open>make_grid\<close>), each recorded with the gradient mode in force at the call, and logs
  scalars and images.
\<close>

datatype event =
    NetCall net bool
  | SchedulerStep bool
  | GridOp bool
  | LogScalar string real
  | LogImage string tensor

record 'g pstate =
  rng :: 'g
  grad_enabled :: bool
  trace :: "event list"

type_synonym ('a, 'g) run = "'g pstate \<Rightarrow> (error + 'a) \<times> 'g pstate"

definition returnE :: "'a \<Rightarrow> ('a, 'g) run" where
  "returnE a = (\<lambda>s. (Inr a, s))"

definition liftE :: "error + 'a \<Rightarrow> ('a, 'g) run" where
  "liftE r = (\<lambda>s. (r, s))"

text \<open>Sequencing: an exception stops the step and keeps the state reached.\<close>

definition bindE :: "('a, 'g) run \<Rightarrow> ('a \<Rightarrow> ('b, 'g) run) \<Rightarrow> ('b, 'g) run" where
  "bindE m f = (\<lambda>s. case m s of (Inl e, s') \<Rightarrow> (Inl e, s') | (Inr a, s') \<Rightarrow> f a s')"

definition emit :: "event \<Rightarrow> (unit, 'g) run" where
  "emit ev = (\<lambda>s. (Inr (), s\<lparr>trace := trace s @ [ev]\<rparr>))"

text \<open>A draw from the global torch generator.\<close>

definition draw :: "('g \<Rightarrow> 'a \<times> 'g) \<Rightarrow> ('a, 'g) run" where
  "draw f = (\<lambda>s. case f (rng s) of (a, g') \<Rightarrow> (Inr a, s\<lparr>rng := g'\<rparr>))"

text \<open>\<^verbatim>\<open>with torch.no_grad():\<close> restores the previous mode on exit, also on an exception.\<close>

definition no_grad :: "('a, 'g) run \<Rightarrow> ('a, 'g) run" where
  "no_grad m = (\<lambda>s. case m (s\<lparr>grad_enabled := False\<rparr>) of
                     (r, s') \<Rightarrow> (r, s'\<lparr>grad_enabled := grad_enabled s\<rparr>))"

text \<open>\<^verbatim>\<open>batch[key]\<close>.\<close>

definition lookup :: "batch \<Rightarrow> string \<Rightarrow> (tensor, 'g) run" where
  "lookup b k = liftE (case b k of None \<Rightarrow> Inl (KeyError k) | Some v \<Rightarrow> Inr v)"

text \<open>An attribute that \<^verbatim>\<open>__init__\<close> sets only in cycle mode.\<close>

definition attr :: "string \<Rightarrow> 'a option \<Rightarrow> ('a, 'g) run" where
  "attr name v = liftE (case v of None \<Rightarrow> Inl (AttributeError name) | Some f \<Rightarrow> Inr f)"

text \<open>A local variable that is bound only once the loop body has run.\<close>

definition local_var :: "string \<Rightarrow> 'a option \<Rightarrow> ('a, 'g) run" where
  "local_var name v = liftE (case v of None \<Rightarrow> Inl (NameError name) | Some x \<Rightarrow> Inr x)"

text \<open>
  The functions of torch and torchvision that a step calls are parameters:
  \<^verbatim>\<open>torch.randn_like\<close>, \<^verbatim>\<open>torch.randint\<close> (for \<open>low < high\<close>), \<^verbatim>\<open>torch.rand\<close>,
  \<^verbatim>\<open>torch.cat(..., dim=-1)\<close> and the rendering of the grid
  (\<^verbatim>\<open>transpose(2, 3)\<close>, \<^verbatim>\<open>make_grid\<close>, \<^verbatim>\<open>clamp(0, 1)\<close>).
\<close>

record 'g torch =
  torch_randn_like :: "tensor \<Rightarrow> 'g \<Rightarrow> tensor \<times> 'g"
  torch_randint :: "nat \<Rightarrow> nat \<Rightarrow> nat \<Rightarrow> 'g \<Rightarrow> nat list \<times> 'g"
  torch_rand :: "nat \<Rightarrow> 'g \<Rightarrow> real list \<times> 'g"
  torch_cat :: "tensor list \<Rightarrow> error + tensor"
  make_grid :: "tensor \<Rightarrow> error + tensor"

text \<open>\<^verbatim>\<open>torch.randint(low, high, (n,))\<close> raises unless \<open>low < high\<close>.\<close>

definition randint :: "'g torch \<Rightarrow> nat \<Rightarrow> nat \<Rightarrow> nat \<Rightarrow> (nat list, 'g) run" where
  "randint tc low high n =
     (if low < high then draw (torch_randint tc low high n) else liftE (Inl RuntimeError))"

text \<open>
  The \<^verbatim>\<open>DDPMScheduler\<close> of the diffusers library, as the steps use it: the attributes
  \<^verbatim>\<open>num_train_timesteps\<close> and \<^verbatim>\<open>timesteps\<close> and the methods \<^verbatim>\<open>add_noise\<close> and
  \<^verbatim>\<open>step\<close> (its \<^verbatim>\<open>prev_sample\<close>; the method draws from the generator).
\<close>

record 'g scheduler =
  num_train_timesteps :: nat
  timesteps :: "nat list"
  add_noise :: "tensor \<Rightarrow> tensor \<Rightarrow> nat list \<Rightarrow> error + tensor"
  step :: "tensor \<Rightarrow> nat \<Rightarrow> tensor \<Rightarrow> 'g \<Rightarrow> (error + tensor) \<times> 'g"

definition scheduler_step :: "'g scheduler \<Rightarrow> tensor \<Rightarrow> nat \<Rightarrow> tensor \<Rightarrow> (tensor, 'g) run" where
  "scheduler_step sch model_output t sample =
     (\<lambda>s. case step sch model_output t sample (rng s) of
             (r, g') \<Rightarrow> (r, s\<lparr>rng := g', trace := trace s @ [SchedulerStep (grad_enabled s)]\<rparr>))"

text \<open>Invoking a network: the invocation is recorded, then the network answers or raises.\<close>

definition call_net :: "net \<Rightarrow> error + tensor \<Rightarrow> (tensor, 'g) run" where
  "call_net n r = (\<lambda>s. (r, s\<lparr>trace := trace s @ [NetCall n (grad_enabled s)]\<rparr>))"

text \<open>
  An operation that composes the grid: the operation is recorded, then it answers or
  raises.
\<close>

definition grid_op :: "error + tensor \<Rightarrow> (tensor, 'g) run" where
  "grid_op r = (\<lambda>s. (r, s\<lparr>trace := trace s @ [GridOp (grad_enabled s)]\<rparr>))"

text \<open>\<^verbatim>\<open>self.log(name, value, ...)\<close>.\<close>

definition log_scalar :: "string \<Rightarrow> real \<Rightarrow> (unit, 'g) run" where
  "log_scalar name v = emit (LogScalar name v)"

section \<open>The start of a step, common to both modules\<close>

text \<open>
  The first statements of \<^verbatim>\<open>_common_step\<close>, the same in both scripts: the three
  tensors are read from the batch, \<^verbatim>\<open>rng_p\<close> and \<^verbatim>\<open>rng_u\<close> are drawn, \<^verbatim>\<open>bs\<close> is
  \<^verbatim>\<open>image.shape[0]\<close> and one timestep per sample is drawn from
  \<^verbatim>\<open>[0, num_train_timesteps)\<close>.
\<close>

definition draw_inputs ::
  "'g torch \<Rightarrow> nat \<Rightarrow> batch \<Rightarrow>
     (tensor \<times> tensor \<times> tensor \<times> tensor \<times> tensor \<times> nat \<times> nat list, 'g) run" where
  "draw_inputs tc T batch =
     bindE (lookup batch ''image'') (\<lambda>img.
     bindE (lookup batch ''label'') (\<lambda>lbl.
     bindE (lookup batch ''unsup'') (\<lambda>unsup.
     bindE (draw (torch_randn_like tc img)) (\<lambda>rng_p.
     bindE (draw (torch_randn_like tc unsup)) (\<lambda>rng_u.
     bindE (liftE (getitem (shape img) 0)) (\<lambda>bs.
     bindE (randint tc 0 T bs) (\<lambda>ts.
     returnE (img, lbl, unsup, rng_p, rng_u, bs, ts))))))))"

section \<open>The class-conditioned module (\<^verbatim>\<open>segmentation_diffuser_one.py\<close>)\<close>

record 'g ddmm_one =
  noise_scheduler_one :: "'g scheduler"
  diffusion :: "tensor \<Rightarrow> tsteps \<Rightarrow> nat list \<Rightarrow> error + tensor"
  loss_func :: "tensor \<Rightarrow> tensor \<Rightarrow> error + real"

text \<open>The supervised pass: both noised tensors, both estimates, \<^verbatim>\<open>super_loss\<close>.\<close>

definition supervised_one ::
  "'g ddmm_one \<Rightarrow> tensor \<Rightarrow> tensor \<Rightarrow> tensor \<Rightarrow> nat list \<Rightarrow> nat list \<Rightarrow> nat list \<Rightarrow> (real, 'g) run" where
  "supervised_one m img lbl rng_p ts cls_i cls_l =
     bindE (liftE (add_noise (noise_scheduler_one m) (scale_shift 2 (- 1) img) rng_p ts)) (\<lambda>mid_i.
     bindE (liftE (add_noise (noise_scheduler_one m) (scale_shift 2 (- 1) lbl) rng_p ts)) (\<lambda>mid_l.
     bindE (call_net Diffusion (diffusion m mid_i (PerSample ts) cls_i)) (\<lambda>est_i.
     bindE (call_net Diffusion (diffusion m mid_l (PerSample ts) cls_l)) (\<lambda>est_l.
     bindE (liftE (loss_func m est_i rng_p)) (\<lambda>l1.
     bindE (liftE (loss_func m est_l rng_p)) (\<lambda>l2.
     returnE (l1 + l2)))))))"

text \<open>The unsupervised pass.\<close>

definition unsupervised_one ::
  "'g ddmm_one \<Rightarrow> tensor \<Rightarrow> tensor \<Rightarrow> nat list \<Rightarrow> nat list \<Rightarrow> (real, 'g) run" where
  "unsupervised_one m unsup rng_u ts cls_u =
     bindE (liftE (add_noise (noise_scheduler_one m) (scale_shift 2 (- 1) unsup) rng_u ts)) (\<lambda>mid_u.
     bindE (call_net Diffusion (diffusion m mid_u (PerSample ts) cls_u)) (\<lambda>est_u.
     liftE (loss_func m est_u rng_u)))"

text \<open>
  \<^verbatim>\<open>_common_step\<close> up to \<^verbatim>\<open>loss = super_loss + unsup_loss\<close>.  Beside the loss, the
  locals that the visualization reads are returned.  \<^verbatim>\<open>gamma\<close> is drawn only for its
  shape: the class tensors are zeros and ones of that shape.
\<close>

definition loss_part_one ::
  "'g ddmm_one \<Rightarrow> 'g torch \<Rightarrow> batch \<Rightarrow> string \<Rightarrow>
     (real \<times> tensor \<times> tensor \<times> tensor \<times> nat list \<times> nat list, 'g) run" where
  "loss_part_one m tc batch stage =
     bindE (draw_inputs tc (num_train_timesteps (noise_scheduler_one m)) batch)
       (\<lambda>(img, lbl, unsup, rng_p, rng_u, bs, ts).
     bindE (draw (torch_rand tc bs)) (\<lambda>gamma.
     let cls_i = map (\<lambda>_. 0) gamma; cls_l = map (\<lambda>_. 1) gamma in
     bindE (supervised_one m img lbl rng_p ts cls_i cls_l) (\<lambda>super_loss.
     let cls_u = map (\<lambda>_. 0) gamma in
     bindE (unsupervised_one m unsup rng_u ts cls_u) (\<lambda>unsup_loss.
     bindE (log_scalar (stage @ ''_super_loss'') super_loss) (\<lambda>_.
     bindE (log_scalar (stage @ ''_unsup_loss'') unsup_loss) (\<lambda>_.
     returnE (super_loss + unsup_loss, img, lbl, unsup, cls_i, cls_l)))))))"

text \<open>The sampling loop \<^verbatim>\<open>for i, t in enumerate(self.noise_scheduler.timesteps)\<close>.\<close>

fun sample_loop_one ::
  "'g ddmm_one \<Rightarrow> nat list \<Rightarrow> nat list \<Rightarrow> nat list \<Rightarrow> tensor \<times> tensor \<Rightarrow>
     (tensor \<times> tensor, 'g) run" where
  "sample_loop_one m cls_i cls_l [] sam = returnE sam"
| "sample_loop_one m cls_i cls_l (t # rest) sam =
     bindE (call_net Diffusion (diffusion m (fst sam) (Scalar t) cls_i)) (\<lambda>res_i.
     bindE (call_net Diffusion (diffusion m (snd sam) (Scalar t) cls_l)) (\<lambda>res_l.
     bindE (scheduler_step (noise_scheduler_one m) res_i t (fst sam)) (\<lambda>sam_i.
     bindE (scheduler_step (noise_scheduler_one m) res_l t (snd sam)) (\<lambda>sam_l.
     sample_loop_one m cls_i cls_l rest (sam_i, sam_l)))))"

text \<open>The body of \<^verbatim>\<open>if stage == 'train' and batch_idx % 10 == 0:\<close>.\<close>

definition visualize_one ::
  "'g ddmm_one \<Rightarrow> 'g torch \<Rightarrow> string \<Rightarrow> tensor \<Rightarrow> tensor \<Rightarrow> tensor \<Rightarrow> nat list \<Rightarrow> nat list \<Rightarrow>
     (unit, 'g) run" where
  "visualize_one m tc stage img lbl unsup cls_i cls_l =
     bindE (no_grad
              (bindE (draw (torch_randn_like tc img)) (\<lambda>r.
               bindE (sample_loop_one m cls_i cls_l (timesteps (noise_scheduler_one m)) (r, r)) (\<lambda>sam.
               returnE (scale_shift (1 / 2) (1 / 2) (fst sam), scale_shift (1 / 2) (1 / 2) (snd sam)))))) (\<lambda>sam.
     bindE (grid_op (torch_cat tc [img, lbl, fst sam, snd sam, unsup])) (\<lambda>viz2d.
     bindE (grid_op (make_grid tc viz2d)) (\<lambda>grid.
     emit (LogImage (stage @ ''_samples'') grid))))"

text \<open>\<^verbatim>\<open>_common_step\<close>; the returned \<^verbatim>\<open>info['loss']\<close> is the result.\<close>

definition common_step_one ::
  "'g ddmm_one \<Rightarrow> 'g torch \<Rightarrow> batch \<Rightarrow> nat \<Rightarrow> string \<Rightarrow> (real, 'g) run" where
  "common_step_one m tc batch batch_idx stage =
     bindE (loss_part_one m tc batch stage) (\<lambda>(loss, img, lbl, unsup, cls_i, cls_l).
     if stage = ''train'' \<and> batch_idx mod 10 = 0
     then bindE (visualize_one m tc stage img lbl unsup cls_i cls_l) (\<lambda>_. returnE loss)
     else returnE loss)"

definition training_step_one :: "'g ddmm_one \<Rightarrow> 'g torch \<Rightarrow> batch \<Rightarrow> nat \<Rightarrow> (real, 'g) run" where
  "training_step_one m tc batch batch_idx = common_step_one m tc batch batch_idx ''train''"

definition validation_step_one :: "'g ddmm_one \<Rightarrow> 'g torch \<Rightarrow> batch \<Rightarrow> nat \<Rightarrow> (real, 'g) run" where
  "validation_step_one m tc batch batch_idx = common_step_one m tc batch batch_idx ''validation''"

definition test_step_one :: "'g ddmm_one \<Rightarrow> 'g torch \<Rightarrow> batch \<Rightarrow> nat \<Rightarrow> (real, 'g) run" where
  "test_step_one m tc batch batch_idx = common_step_one m tc batch batch_idx ''test''"

section \<open>The dual/quad-network module (\<^verbatim>\<open>segmentation_diffuser_two.py\<close>)\<close>

text \<open>
  The two translation networks exist only when \<^verbatim>\<open>is_use_cycle\<close> is set
  (\<^verbatim>\<open>__init__\<close>); reading a missing one raises AttributeError.
\<close>

record 'g ddmm_two =
  noise_scheduler :: "'g scheduler"
  is_use_cycle :: bool
  diffusion_image :: "tensor \<Rightarrow> tsteps \<Rightarrow> error + tensor"
  diffusion_label :: "tensor \<Rightarrow> tsteps \<Rightarrow> error + tensor"
  diffusion_from_image_to_label :: "(tensor \<Rightarrow> tsteps \<Rightarrow> error + tensor) option"
  diffusion_from_label_to_image :: "(tensor \<Rightarrow> tsteps \<Rightarrow> error + tensor) option"
  l1_loss :: "tensor \<Rightarrow> tensor \<Rightarrow> error + real"

text \<open>The body of \<^verbatim>\<open>if self.is_use_cycle:\<close> in the loss computation; its value is the
  amount added to \<^verbatim>\<open>super_loss\<close>.\<close>

definition cycle_terms ::
  "'g ddmm_two \<Rightarrow> tensor \<Rightarrow> tensor \<Rightarrow> tensor \<Rightarrow> tensor \<Rightarrow> nat list \<Rightarrow> (real, 'g) run" where
  "cycle_terms m img lbl mid_i mid_l ts =
     bindE (attr ''diffusion_from_image_to_label'' (diffusion_from_image_to_label m)) (\<lambda>i2l.
     bindE (call_net DiffusionFromImageToLabel (i2l mid_i (PerSample (map (\<lambda>_. 0) ts)))) (\<lambda>pred_label.
     bindE (attr ''diffusion_from_label_to_image'' (diffusion_from_label_to_image m)) (\<lambda>l2i.
     bindE (call_net DiffusionFromLabelToImage (l2i mid_l (PerSample (map (\<lambda>_. 0) ts)))) (\<lambda>pred_image.
     bindE (liftE (l1_loss m pred_image mid_i)) (\<lambda>c1.
     bindE (liftE (l1_loss m pred_label mid_l)) (\<lambda>c2.
     bindE (liftE (l1_loss m pred_image img)) (\<lambda>c3.
     bindE (liftE (l1_loss m pred_label lbl)) (\<lambda>c4.
     returnE (c1 + c2 + c3 + c4)))))))))"

text \<open>
  The supervised pass without the cycle terms: both noised tensors, both estimates and
  the four terms of \<^verbatim>\<open>super_loss\<close>.  The noised tensors are returned for the cycle
  branch.
\<close>

definition supervised_two ::
  "'g ddmm_two \<Rightarrow> tensor \<Rightarrow> tensor \<Rightarrow> tensor \<Rightarrow> nat list \<Rightarrow> (real \<times> tensor \<times> tensor, 'g) run" where
  "supervised_two m img lbl rng_p ts =
     bindE (liftE (add_noise (noise_scheduler m) (scale_shift 2 (- 1) img) rng_p ts)) (\<lambda>mid_i.
     bindE (liftE (add_noise (noise_scheduler m) (scale_shift 2 (- 1) lbl) rng_p ts)) (\<lambda>mid_l.
     bindE (call_net DiffusionImage (diffusion_image m mid_i (PerSample ts))) (\<lambda>est_i.
     bindE (call_net DiffusionLabel (diffusion_label m mid_l (PerSample ts))) (\<lambda>est_l.
     bindE (liftE (l1_loss m est_i rng_p)) (\<lambda>a1.
     bindE (liftE (l1_loss m est_l rng_p)) (\<lambda>a2.
     bindE (liftE (l1_loss m est_i img)) (\<lambda>a3.
     bindE (liftE (l1_loss m est_l lbl)) (\<lambda>a4.
     returnE (a1 + a2 + a3 + a4, mid_i, mid_l)))))))))"

text \<open>The unsupervised pass.\<close>

definition unsupervised_two ::
  "'g ddmm_two \<Rightarrow> tensor \<Rightarrow> tensor \<Rightarrow> nat list \<Rightarrow> (real, 'g) run" where
  "unsupervised_two m unsup rng_u ts =
     bindE (liftE (add_noise (noise_scheduler m) (scale_shift 2 (- 1) unsup) rng_u ts)) (\<lambda>mid_u.
     bindE (call_net DiffusionImage (diffusion_image m mid_u (PerSample ts))) (\<lambda>est_u.
     bindE (liftE (l1_loss m est_u rng_u)) (\<lambda>u1.
     bindE (liftE (l1_loss m est_u unsup)) (\<lambda>u2.
     returnE (u1 + u2)))))"

text \<open>\<^verbatim>\<open>_common_step\<close> up to \<^verbatim>\<open>loss = super_loss + unsup_loss\<close>.\<close>

definition loss_part_two ::
  "'g ddmm_two \<Rightarrow> 'g torch \<Rightarrow> batch \<Rightarrow> string \<Rightarrow> (real \<times> tensor \<times> tensor \<times> tensor, 'g) run" where
  "loss_part_two m tc batch stage =
     bindE (draw_inputs tc (num_train_timesteps (noise_scheduler m)) batch)
       (\<lambda>(img, lbl, unsup, rng_p, rng_u, bs, ts).
     bindE (supervised_two m img lbl rng_p ts) (\<lambda>(spv, mid_i, mid_l).
     bindE (if is_use_cycle m then cycle_terms m img lbl mid_i mid_l ts else returnE 0) (\<lambda>cyc.
     let super_loss = spv + cyc in
     bindE (unsupervised_two m unsup rng_u ts) (\<lambda>unsup_loss.
     bindE (log_scalar (stage @ ''_super_loss'') super_loss) (\<lambda>_.
     bindE (log_scalar (stage @ ''_unsup_loss'') unsup_loss) (\<lambda>_.
     returnE (super_loss + unsup_loss, img, lbl, unsup)))))))"

text \<open>
  The sampling loop.  \<^verbatim>\<open>cycle_i\<close> and \<^verbatim>\<open>cycle_l\<close> are bound by the loop body, in
  cycle mode only.
\<close>

fun sample_loop_two ::
  "'g ddmm_two \<Rightarrow> nat list \<Rightarrow> tensor \<times> tensor \<times> tensor option \<times> tensor option \<Rightarrow>
     (tensor \<times> tensor \<times> tensor option \<times> tensor option, 'g) run" where
  "sample_loop_two m [] acc = returnE acc"
| "sample_loop_two m (t # rest) acc =
     (case acc of (sam_i, sam_l, cycle_i, cycle_l) \<Rightarrow>
     bindE (call_net DiffusionImage (diffusion_image m sam_i (Scalar t))) (\<lambda>res_i.
     bindE (call_net DiffusionLabel (diffusion_label m sam_l (Scalar t))) (\<lambda>res_l.
     bindE (if is_use_cycle m
            then bindE (attr ''diffusion_from_label_to_image'' (diffusion_from_label_to_image m)) (\<lambda>l2i.
                 bindE (call_net DiffusionFromLabelToImage (l2i sam_l (Scalar t))) (\<lambda>ci.
                 bindE (attr ''diffusion_from_image_to_label'' (diffusion_from_image_to_label m)) (\<lambda>i2l.
                 bindE (call_net DiffusionFromImageToLabel (i2l sam_i (Scalar t))) (\<lambda>cl.
                 returnE (Some ci, Some cl)))))
            else returnE (cycle_i, cycle_l)) (\<lambda>cyc.
     bindE (scheduler_step (noise_scheduler m) res_i t sam_i) (\<lambda>sam_i'.
     bindE (scheduler_step (noise_scheduler m) res_l t sam_l) (\<lambda>sam_l'.
     sample_loop_two m rest (sam_i', sam_l', fst cyc, snd cyc)))))))"

text \<open>The body of \<^verbatim>\<open>if batch_idx == 0:\<close>.\<close>

definition visualize_two ::
  "'g ddmm_two \<Rightarrow> 'g torch \<Rightarrow> string \<Rightarrow> tensor \<Rightarrow> tensor \<Rightarrow> tensor \<Rightarrow> (unit, 'g) run" where
  "visualize_two m tc stage img lbl unsup =
     bindE (no_grad
              (bindE (draw (torch_randn_like tc img)) (\<lambda>r.
               bindE (sample_loop_two m (timesteps (noise_scheduler m)) (r, r, None, None)) (\<lambda>acc.
               case acc of (sam_i, sam_l, cycle_i, cycle_l) \<Rightarrow>
                 returnE (scale_shift (1 / 2) (1 / 2) sam_i, scale_shift (1 / 2) (1 / 2) sam_l,
                          cycle_i, cycle_l))))) (\<lambda>acc.
     case acc of (sam_i, sam_l, cycle_i, cycle_l) \<Rightarrow>
     bindE (if is_use_cycle m
            then bindE (local_var ''cycle_i'' cycle_i) (\<lambda>ci.
                 bindE (local_var ''cycle_l'' cycle_l) (\<lambda>cl.
                 grid_op (torch_cat tc [img, lbl, sam_i, sam_l, ci, cl, unsup])))
            else grid_op (torch_cat tc [img, lbl, sam_i, sam_l, unsup])) (\<lambda>viz2d.
     bindE (grid_op (make_grid tc viz2d)) (\<lambda>grid.
     emit (LogImage (stage @ ''__samples'') grid))))"

text \<open>\<^verbatim>\<open>_common_step\<close>; the returned \<^verbatim>\<open>info['loss']\<close> is the result.\<close>

definition common_step_two ::
  "'g ddmm_two \<Rightarrow> 'g torch \<Rightarrow> batch \<Rightarrow> nat \<Rightarrow> string \<Rightarrow> (real, 'g) run" where
  "common_step_two m tc batch batch_idx stage =
     bindE (loss_part_two m tc batch stage) (\<lambda>(loss, img, lbl, unsup).
     if batch_idx = 0
     then bindE (visualize_two m tc stage img lbl unsup) (\<lambda>_. returnE loss)
     else returnE loss)"

definition training_step_two :: "'g ddmm_two \<Rightarrow> 'g torch \<Rightarrow> batch \<Rightarrow> nat \<Rightarrow> (real, 'g) run" where
  "training_step_two m tc batch batch_idx = common_step_two m tc batch batch_idx ''train''"

definition validation_step_two :: "'g ddmm_two \<Rightarrow> 'g torch \<Rightarrow> batch \<Rightarrow> nat \<Rightarrow> (real, 'g) run" where
  "validation_step_two m tc batch batch_idx = common_step_two m tc batch batch_idx ''validation''"

definition test_step_two :: "'g ddmm_two \<Rightarrow> 'g torch \<Rightarrow> batch \<Rightarrow> nat \<Rightarrow> (real, 'g) run" where
  "test_step_two m tc batch batch_idx = common_step_two m tc batch batch_idx ''test''"

section \<open>A small instance of the two modules\<close>

text \<open>
  Stand-ins for the external collaborators, used to run the steps on concrete batches.
  The generator is a counter: \<^verbatim>\<open>randn_like\<close> fills its result with the counter,
  \<^verbatim>\<open>randint\<close> returns \<open>low\<close> for every sample and \<^verbatim>\<open>rand\<close> returns one half; each
  draw advances the counter.
\<close>

definition demo_cat :: "tensor list \<Rightarrow> error + tensor" where
  "demo_cat xs = (case xs of [] \<Rightarrow> Inl RuntimeError
                  | x # _ \<Rightarrow> Inr \<lparr>shape = shape x, vals = concat (map vals xs)\<rparr>)"

definition demo_torch :: "nat torch" where
  "demo_torch = \<lparr>torch_randn_like = (\<lambda>x g. (x\<lparr>vals := map (\<lambda>_. real g) (vals x)\<rparr>, Suc g)),
     torch_randint = (\<lambda>low high n g. (replicate n low, Suc g)),
     torch_rand = (\<lambda>n g. (replicate n (1 / 2), Suc g)),
     torch_cat = demo_cat,
     make_grid = Inr\<rparr>"

text \<open>
  The scheduler of the instance has two timesteps.  Its \<^verbatim>\<open>add_noise\<close> is the noising
  formula with cumulative alpha 9/25 at every timestep (coefficients 3/5 and 4/5); it
  raises when the shapes of sample and noise differ or when the number of timesteps is
  not the batch size of the sample, sizes that torch cannot broadcast.  Its \<^verbatim>\<open>step\<close>
  subtracts the model output from the sample.
\<close>

definition demo_add_noise :: "tensor \<Rightarrow> tensor \<Rightarrow> nat list \<Rightarrow> error + tensor" where
  "demo_add_noise clean noise ts =
     (if shape clean = shape noise \<and> getitem (shape clean) 0 = Inr (length ts)
      then Inr (clean\<lparr>vals := map2 (\<lambda>c n. 3 / 5 * c + 4 / 5 * n) (vals clean) (vals noise)\<rparr>)
      else Inl RuntimeError)"

definition demo_scheduler :: "nat scheduler" where
  "demo_scheduler = \<lparr>num_train_timesteps = 2, timesteps = [1, 0],
     add_noise = demo_add_noise,
     step = (\<lambda>model_output t sample g.
               (Inr (sample\<lparr>vals := map2 (-) (vals sample) (vals model_output)\<rparr>), Suc g))\<rparr>"

text \<open>The criterion of the instance: the mean absolute difference of equally shaped tensors.\<close>

definition demo_loss :: "tensor \<Rightarrow> tensor \<Rightarrow> error + real" where
  "demo_loss a b =
     (if shape a = shape b
      then Inr (sum_list (map2 (\<lambda>x y. \<bar>x - y\<bar>) (vals a) (vals b)) / real (length (vals a)))
      else Inl RuntimeError)"

text \<open>Every network of the instance returns its input.\<close>

definition demo_one :: "nat ddmm_one" where
  "demo_one = \<lparr>noise_scheduler_one = demo_scheduler,
     diffusion = (\<lambda>x t c. Inr x), loss_func = demo_loss\<rparr>"

definition demo_two :: "bool \<Rightarrow> nat ddmm_two" where
  "demo_two cycle = \<lparr>noise_scheduler = demo_scheduler, is_use_cycle = cycle,
     diffusion_image = (\<lambda>x t. Inr x), diffusion_label = (\<lambda>x t. Inr x),
     diffusion_from_image_to_label = (if cycle then Some (\<lambda>x t. Inr x) else None),
     diffusion_from_label_to_image = (if cycle then Some (\<lambda>x t. Inr x) else None),
     l1_loss = demo_loss\<rparr>"

text \<open>
  A batch of one-pixel, one-channel images; a well-formed batch of two samples, and a
  batch whose unsup tensor holds three samples.
\<close>

definition pixels :: "real list \<Rightarrow> tensor" where
  "pixels vs = \<lparr>shape = [length vs, 1, 1, 1], vals = vs\<rparr>"

definition demo_batch :: batch where
  "demo_batch = [''image'' \<mapsto> pixels [1, 0], ''label'' \<mapsto> pixels [0, 1],
                 ''unsup'' \<mapsto> pixels [1, 1]]"


definition demo_state :: "nat pstate" where
  "demo_state = \<lparr>rng = 0, grad_enabled = True, trace = []\<rparr>"

section \<open>Gradient mode of the recorded events\<close>

text \<open>
  An event that did not run with the gradient mode on: a network invocation, a scheduler
  step or a grid operation recorded with the mode off, or a logging event.
\<close>

fun no_grad_event :: "event \<Rightarrow> bool" where
  "no_grad_event (NetCall n g) = (\<not> g)"
| "no_grad_event (SchedulerStep g) = (\<not> g)"
| "no_grad_event (GridOp g) = (\<not> g)"
| "no_grad_event (LogScalar name v) = True"
| "no_grad_event (LogImage name x) = True"

text \<open>
  The same for the sampling alone: every network invocation and every scheduler step has
  the mode off; the grid operations are not looked at.
\<close>

fun sampling_no_grad :: "event \<Rightarrow> bool" where
  "sampling_no_grad (NetCall n g) = (\<not> g)"
| "sampling_no_grad (SchedulerStep g) = (\<not> g)"
| "sampling_no_grad (GridOp g) = True"
| "sampling_no_grad (LogScalar name v) = True"
| "sampling_no_grad (LogImage name x) = True"

text \<open>
  A computation that restores the gradient mode it starts in and only appends to the
  trace; and the network invocations and scheduler steps that it appends have the
  gradient mode off when it starts with the mode off, or in any case when \<open>always\<close> is
  set.
\<close>

definition appends_only :: "bool \<Rightarrow> ('a, 'g) run \<Rightarrow> bool" where
  "appends_only always m \<longleftrightarrow>
     (\<forall>s r s'. m s = (r, s') \<longrightarrow>
        grad_enabled s' = grad_enabled s \<and>
        (\<exists>evs. trace s' = trace s @ evs \<and>
               (always \<or> \<not> grad_enabled s \<longrightarrow> list_all sampling_no_grad evs)))"

section \<open>The noise scheduler\<close>

text \<open>
  Both modules build their scheduler with
  \<^verbatim>\<open>DDPMScheduler(num_train_timesteps=..., beta_schedule='squaredcos_cap_v2')\<close>, and
  \<^verbatim>\<open>CustomDDPMScheduler\<close> of \<^verbatim>\<open>scheduler.py\<close> inherits everything but \<^verbatim>\<open>to\<close> from that
  class.  The class itself belongs to the diffusers library and is not part of the
  sources; the definitions of this section follow the specification of the scheduler.
\<close>

text \<open>
  Modelled from the spec: the function \<open>alpha_bar\<close> of the squared-cosine schedule (the
  construction of the schedule is not under \<^verbatim>\<open>src/\<close>).  The spec names the schedule,
  squared cosine and capped, without its formula; the formula is the cosine schedule that
  the library implements under the name \<^verbatim>\<open>squaredcos_cap_v2\<close>, with the offset as a
  parameter.
\<close>

definition alpha_bar :: "real \<Rightarrow> real \<Rightarrow> real" where
  "alpha_bar off t = (cos ((t + off) / (1 + off) * pi / 2)) ^ 2"

text \<open>
  Modelled from the spec: the capped betas of the schedule over \<open>T\<close> timesteps (not under
  \<^verbatim>\<open>src/\<close>): \<open>1 - alpha_bar ((i + 1) / T) / alpha_bar (i / T)\<close>, capped at \<open>max_beta\<close>.
\<close>

definition betas_for_alpha_bar :: "nat \<Rightarrow> real \<Rightarrow> real \<Rightarrow> real list" where
  "betas_for_alpha_bar T off max_beta =
     map (\<lambda>i. min (1 - alpha_bar off (real (i + 1) / real T) / alpha_bar off (real i / real T))
                  max_beta) [0..<T]"

text \<open>
  Modelled from the spec: the cumulative product of a list (\<^verbatim>\<open>cumprod\<close>, not under
  \<^verbatim>\<open>src/\<close>), from the running product \<open>acc\<close>.
\<close>

fun cumprod_from :: "real \<Rightarrow> real list \<Rightarrow> real list" where
  "cumprod_from acc [] = []"
| "cumprod_from acc (x # xs) = (acc * x) # cumprod_from (acc * x) xs"

text \<open>
  Modelled from the spec: the precomputed table of the scheduler (not under \<^verbatim>\<open>src/\<close>), the
  cumulative product of the alphas \<open>1 - beta\<close>, of length \<open>T\<close>.
\<close>

definition alphas_cumprod :: "nat \<Rightarrow> real \<Rightarrow> real \<Rightarrow> real list" where
  "alphas_cumprod T off max_beta =
     cumprod_from 1 (map (\<lambda>beta. 1 - beta) (betas_for_alpha_bar T off max_beta))"

text \<open>
  Modelled from the spec: the table for the schedule that both modules select (not under
  \<^verbatim>\<open>src/\<close>), with the library's offset 0.008 and cap 0.999.
\<close>

definition squaredcos_cap_v2 :: "nat \<Rightarrow> real list" where
  "squaredcos_cap_v2 T = alphas_cumprod T (8 / 1000) (999 / 1000)"

text \<open>
  Modelled from the spec: \<^verbatim>\<open>add_noise(clean, noise, timestep)\<close> of the scheduler (inherited
  from the library's class, not under \<^verbatim>\<open>src/\<close>).  It returns
  \<^verbatim>\<open>sqrt(alpha_cumprod[timestep]) * clean + sqrt(1 - alpha_cumprod[timestep]) * noise\<close>,
  broadcast per sample over a batch of timesteps: with tensors in row-major order, entry
  \<open>k\<close> belongs to sample \<open>k div per_sample\<close>.  The spec constrains the timesteps to
  \<open>[0, T)\<close>; a timestep outside the table raises.  The model covers clean and noise tensors
  of one shape with one timestep per sample; other calls are represented as raising.
\<close>

definition ddpm_add_noise :: "real list \<Rightarrow> tensor \<Rightarrow> tensor \<Rightarrow> nat list \<Rightarrow> error + tensor" where
  "ddpm_add_noise alphas_cumprod_table clean noise ts =
     (if \<exists>t \<in> set ts. length alphas_cumprod_table \<le> t then Inl IndexError
      else if shape clean \<noteq> shape noise \<or> getitem (shape clean) 0 \<noteq> Inr (length ts) \<or>
              length (vals clean) \<noteq> prod_list (shape clean) \<or>
              length (vals noise) \<noteq> prod_list (shape noise)
      then Inl RuntimeError
      else
        let per_sample = prod_list (tl (shape clean));
            coeff = (\<lambda>k. alphas_cumprod_table ! (ts ! (k div per_sample)))
        in Inr \<lparr>shape = shape clean,
                vals = map (\<lambda>k. sqrt (coeff k) * (vals clean ! k) +
                                 sqrt (1 - coeff k) * (vals noise ! k))
                           [0..<length (vals clean)]\<rparr>)"

section \<open>Properties of dataset item retrieval\<close>

lemma select_files_state_free:
  "select_files ops ds index r1 = select_files ops ds index r2 \<or>
   (\<exists>e. fst (select_files ops ds index r1) = Inl e \<and> fst (select_files ops ds index r2) = Inl e)"
  unfolding select_files_def
  by (simp split: sum.split prod.split)

text \<open>
  C10.  Item retrieval is deterministic per index: whatever state the generator
  \<^verbatim>\<open>self.R\<close> is in when index \<open>i\<close> is accessed (another epoch, another process,
  any history of earlier accesses), the access returns the same paired file index
  \<^verbatim>\<open>rand_idx\<close>, the same unsup file index \<^verbatim>\<open>rand_idy\<close> and the same files, or raises
  the same exception; so both draws are functions of \<open>i\<close> (and of the fixed file
  lists) alone.  Without a transform the whole item returned by \<^verbatim>\<open>_transform\<close> is the
  same.
\<close>

theorem transform_deterministic_per_index:
  "fst (select_files ops ds i r1) = fst (select_files ops ds i r2) \<and>
   (transform ds = None \<longrightarrow>
      fst (ds_transform ops ret ds i (r1, w1)) = fst (ds_transform ops ret ds i (r2, w2)))"
proof -
  have sel: "fst (select_files ops ds i r1) = fst (select_files ops ds i r2)"
    using select_files_state_free [of ops ds i r1 r2] by auto
  have "fst (ds_transform ops ret ds i (r1, w1)) = fst (ds_transform ops ret ds i (r2, w2))"
    if "transform ds = None"
  proof (cases "select_files ops ds i r1")
    case (Pair a r1')
    obtain r2' where p2: "select_files ops ds i r2 = (a, r2')"
      using sel Pair by (cases "select_files ops ds i r2") auto
    show ?thesis
      using that Pair p2 by (simp add: ds_transform_def split: sum.split prod.split)
  qed
  with sel show ?thesis by blast
qed

lemma demo_select: "select_files demo_R demo_dataset 1 r =
   (Inr (1, 2, [''image'' \<mapsto> ''i1.png'', ''label'' \<mapsto> ''l1.png'', ''unsup'' \<mapsto> ''u2.png'']), 3)"
  by (simp add: select_files_def demo_R_def demo_dataset_def seed_R_def getitem_def randint_R_def)

theorem transform_deterministic_per_index_witness:
  "transform demo_dataset = None \<and>
   fst (select_files demo_R demo_dataset 1 0) = fst (select_files demo_R demo_dataset 1 77) \<and>
   fst (select_files demo_R demo_dataset 1 77) =
     Inr (1, 2, [''image'' \<mapsto> ''i1.png'', ''label'' \<mapsto> ''l1.png'', ''unsup'' \<mapsto> ''u2.png'']) \<and>
   fst (ds_transform demo_R id demo_dataset 1 (0, ())) =
     fst (ds_transform demo_R id demo_dataset 1 (77, ()))"
  using transform_deterministic_per_index [of demo_R demo_dataset 1 0 77 id "()" "()"]
  by (simp add: demo_select) (simp add: demo_dataset_def)

section \<open>Properties of the Dice + cross-entropy loss\<close>

lemma softmax_pos: "0 < C \<Longrightarrow> c < C \<Longrightarrow> 0 < softmax C x b c h w"
  unfolding softmax_def
  by (intro divide_pos_pos sum_pos) auto

lemma softmax_lt_1:
  assumes "2 \<le> C" "c < C"
  shows "softmax C x b c h w < 1"
proof -
  define k :: nat where "k = (if c = 0 then 1 else 0)"
  have k: "k < C" "k \<noteq> c"
    using assms by (auto simp: k_def)
  have "exp (x b c h w) < exp (x b c h w) + exp (x b k h w)" by simp
  also have "\<dots> = (\<Sum>j\<in>{c, k}. exp (x b j h w))" using k by simp
  also have "\<dots> \<le> (\<Sum>j<C. exp (x b j h w))"
    using k assms by (intro sum_mono2) auto
  finally have lt: "exp (x b c h w) < (\<Sum>j<C. exp (x b j h w))" .
  moreover have "0 < (\<Sum>j<C. exp (x b j h w))"
    using assms by (intro sum_pos) auto
  ultimately show ?thesis by (simp add: softmax_def)
qed

lemma dice_lt_1:
  assumes "0 < H" "0 < W" "2 \<le> C" "c < C" "0 \<le> smooth"
  shows "0 < summation H W C x g b c + smooth \<and> dice H W C x g smooth b c < 1"
proof -
  let ?s = "\<lambda>h w. softmax C x b c h w"
  let ?o = "\<lambda>h w. one_hot g b h w c"
  have pt: "2 * (?s h w * ?o h w) < ?s h w + ?o h w" for h w
    using softmax_pos [of C c x b h w] softmax_lt_1 [of C c x b h w] assms
    by (simp add: one_hot_def)
  have inner: "(\<Sum>w<W. 2 * (?s h w * ?o h w)) < (\<Sum>w<W. ?s h w + ?o h w)" for h
    by (rule sum_strict_mono) (use assms pt in auto)
  have "(\<Sum>h<H. \<Sum>w<W. 2 * (?s h w * ?o h w)) < (\<Sum>h<H. \<Sum>w<W. ?s h w + ?o h w)"
    by (rule sum_strict_mono) (use assms inner in auto)
  then have lt: "2 * intersection H W C x g b c < summation H W C x g b c"
    by (simp add: intersection_def summation_def sum_dims_def permute_def sum_distrib_left sum.distrib)
  have "0 \<le> (\<Sum>h<H. \<Sum>w<W. 2 * (?s h w * ?o h w))"
    using softmax_pos [of C c x b] assms
    by (intro sum_nonneg mult_nonneg_nonneg) (auto simp: one_hot_def less_imp_le)
  then have "0 \<le> 2 * intersection H W C x g b c"
    by (simp add: intersection_def sum_dims_def permute_def sum_distrib_left)
  with lt assms have pos: "0 < summation H W C x g b c + smooth" by linarith
  with lt show ?thesis by (simp add: dice_def)
qed


lemma onehot_denominator:
  assumes "g b h w < C" "\<forall>c<C. x b c h w = one_hot g b h w c"
  shows "(\<Sum>k<C. exp (x b k h w)) = exp 1 + (real C - 1)"
proof -
  have "(\<Sum>k<C. exp (x b k h w)) = (\<Sum>k<C. exp (one_hot g b h w k))"
    using assms by (intro sum.cong) auto
  also have "\<dots> = exp (one_hot g b h w (g b h w)) + (\<Sum>k\<in>{..<C} - {g b h w}. exp (one_hot g b h w k))"
    using assms by (intro sum.remove) auto
  also have "(\<Sum>k\<in>{..<C} - {g b h w}. exp (one_hot g b h w k)) = (\<Sum>k\<in>{..<C} - {g b h w}. 1)"
    by (intro sum.cong) (auto simp: one_hot_def)
  also have "\<dots> = real C - 1"
    using assms by (simp add: of_nat_diff Suc_leI)
  finally show ?thesis by (simp add: one_hot_def)
qed

lemma onehot_cross_entropy:
  assumes "0 < B" "0 < H" "0 < W"
    and rng: "\<forall>b<B. \<forall>h<H. \<forall>w<W. g b h w < C"
    and oh: "\<forall>b<B. \<forall>h<H. \<forall>w<W. \<forall>c<C. x b c h w = one_hot g b h w c"
  shows "cross_entropy B H W C x g = ln (exp 1 + (real C - 1)) - 1"
proof -
  have px: "- ln (exp (x b (g b h w) h w) / (\<Sum>k<C. exp (x b k h w))) = ln (exp 1 + (real C - 1)) - 1"
    if "b < B" "h < H" "w < W" for b h w
  proof -
    have gl: "g b h w < C" using rng that by blast
    then have "1 \<le> C" by simp
    then have C1: "1 \<le> real C" by simp
    have den: "(\<Sum>k<C. exp (x b k h w)) = exp 1 + (real C - 1)"
      using onehot_denominator [of g b h w C x] gl oh that by blast
    have num: "x b (g b h w) h w = 1"
      using oh that gl by (simp add: one_hot_def)
    have pos: "0 < exp (1::real) + (real C - 1)"
      using C1 by (intro add_pos_nonneg) auto
    show ?thesis
      unfolding den num using pos by (simp add: ln_div)
  qed
  have "(\<Sum>b<B. \<Sum>h<H. \<Sum>w<W. - ln (exp (x b (g b h w) h w) / (\<Sum>k<C. exp (x b k h w)))) =
        (\<Sum>b<B. \<Sum>h<H. \<Sum>w<W. ln (exp 1 + (real C - 1)) - 1)"
    by (intro sum.cong refl) (use px in auto)
  also have "\<dots> = real (B * H * W) * (ln (exp 1 + (real C - 1)) - 1)"
    by (simp add: algebra_simps)
  finally show ?thesis
    using assms by (simp add: cross_entropy_def)
qed

lemma onehot_ce_pos:
  assumes "2 \<le> C"
  shows "0 < ln (exp 1 + (real C - 1)) - 1"
proof -
  have "exp (1::real) < exp 1 + (real C - 1)" using assms by simp
  then have "ln (exp (1::real)) < ln (exp 1 + (real C - 1))"
    by (intro iffD2 [OF ln_less_cancel_iff]) (auto intro: add_pos_nonneg)
  then show ?thesis by simp
qed

lemma dice_mean_lt_1:
  assumes "0 < B" "0 < H" "0 < W" "2 \<le> C" "0 \<le> smooth"
  shows "(\<Sum>b<B. \<Sum>c<C. dice H W C x g smooth b c) / real (B * C) < 1"
proof -
  have inner: "(\<Sum>c<C. dice H W C x g smooth b c) < (\<Sum>c<C. 1)" for b
  proof (rule sum_strict_mono)
    show "finite {..<C}" by simp
    show "{..<C} \<noteq> {}" using assms by (auto simp: lessThan_empty_iff)
    show "dice H W C x g smooth b c < 1" if "c \<in> {..<C}" for c
      using that assms dice_lt_1 [of H W C c smooth x g b] by simp
  qed
  have "(\<Sum>b<B. \<Sum>c<C. dice H W C x g smooth b c) < (\<Sum>b<B. \<Sum>c<C. 1)"
    by (rule sum_strict_mono) (use assms inner in auto)
  also have "\<dots> = real (B * C)" by simp
  finally show ?thesis using assms by simp
qed

lemma dice_no_nan:
  assumes "0 < B" "0 < H" "0 < W" "2 \<le> C" "0 \<le> smooth"
  shows "\<not> (B * C = 0 \<or> B * H * W = 0 \<or>
            (\<exists>b<B. \<exists>c<C. summation H W C x g b c + smooth = 0))"
proof -
  have "summation H W C x g b c + smooth \<noteq> 0" if "c < C" for b c
    using dice_lt_1 [of H W C c smooth x g b] assms that by simp
  then show ?thesis using assms by auto
qed

lemma dice_onehot_aux:
  assumes "0 < B" "0 < H" "0 < W" "2 \<le> C" "0 \<le> smooth"
    and rng: "\<forall>b<B. \<forall>h<H. \<forall>w<W. g b h w < C"
    and oh: "\<forall>b<B. \<forall>h<H. \<forall>w<W. \<forall>c<C. x b c h w = one_hot g b h w c"
  shows "dice_coef_loss B H W x g C smooth =
           Inr (Some ((1 - (\<Sum>b<B. \<Sum>c<C. dice H W C x g smooth b c) / real (B * C)) +
                      (ln (exp 1 + (real C - 1)) - 1)))"
    and "(\<Sum>b<B. \<Sum>c<C. dice H W C x g smooth b c) / real (B * C) < 1"
    and "cross_entropy B H W C x g = ln (exp 1 + (real C - 1)) - 1"
    and "0 < ln (exp 1 + (real C - 1)) - 1"
proof -
  show ce: "cross_entropy B H W C x g = ln (exp 1 + (real C - 1)) - 1"
    using onehot_cross_entropy [OF assms(1-3) rng oh] .
  show "0 < ln (exp 1 + (real C - 1)) - 1"
    using onehot_ce_pos [OF assms(4)] .
  show "(\<Sum>b<B. \<Sum>c<C. dice H W C x g smooth b c) / real (B * C) < 1"
    using dice_mean_lt_1 [OF assms(1-5)] .
  have no_raise: "\<not> (\<exists>b<B. \<exists>h<H. \<exists>w<W. C \<le> g b h w)"
    using rng by (meson not_le)
  show "dice_coef_loss B H W x g C smooth =
           Inr (Some ((1 - (\<Sum>b<B. \<Sum>c<C. dice H W C x g smooth b c) / real (B * C)) +
                      (ln (exp 1 + (real C - 1)) - 1)))"
    unfolding dice_coef_loss_def Let_def ce
    using no_raise dice_no_nan [OF assms(1-5), of x g] by (simp only: if_False)
qed

text \<open>
  C9 (as amended).  \<^verbatim>\<open>dice_coef_loss\<close> applies a softmax to its predictions, so an
  exactly one-hot prediction is not a one-hot probability.  For a prediction that is
  exactly the one-hot encoding of the ground truth (at least two classes, a non-empty
  batch and image, \<open>smooth \<ge> 0\<close>) the loss is returned and is strictly positive: the
  cross-entropy term is \<open>ln (e + num_classes - 1) - 1 > 0\<close> and every Dice coefficient
  is strictly below 1.
\<close>

theorem dice_onehot_strictly_positive:
  assumes "0 < B" "0 < H" "0 < W" "2 \<le> C" "0 \<le> smooth"
    and rng: "\<forall>b<B. \<forall>h<H. \<forall>w<W. g b h w < C"
    and oh: "\<forall>b<B. \<forall>h<H. \<forall>w<W. \<forall>c<C. x b c h w = one_hot g b h w c"
  shows "\<exists>L. dice_coef_loss B H W x g C smooth = Inr (Some L) \<and> 0 < L \<and>
           cross_entropy B H W C x g = ln (exp 1 + (real C - 1)) - 1 \<and>
           0 < cross_entropy B H W C x g \<and>
           (\<forall>b<B. \<forall>c<C. dice H W C x g smooth b c < 1)"
proof -
  note aux = dice_onehot_aux [OF assms]
  have d1: "\<forall>b<B. \<forall>c<C. dice H W C x g smooth b c < 1"
    using dice_lt_1 [of H W C _ smooth x g] assms(2-5) by simp
  have pos: "0 < (1 - (\<Sum>b<B. \<Sum>c<C. dice H W C x g smooth b c) / real (B * C)) +
                  (ln (exp 1 + (real C - 1)) - 1)"
    using aux(2) aux(4) by linarith
  have cepos: "0 < cross_entropy B H W C x g"
    unfolding aux(3) by (rule aux(4))
  show ?thesis
    by (intro exI conjI) (rule aux(1), rule pos, rule aux(3), rule cepos, rule d1)
qed

lemma dice_demo_hyps:
  "\<forall>b<(1::nat). \<forall>h<(1::nat). \<forall>w<(1::nat). (\<lambda>b h w. 0::nat) b h w < 2"
  "\<forall>b<(1::nat). \<forall>h<(1::nat). \<forall>w<(1::nat). \<forall>c<(2::nat).
      (\<lambda>b c h w. if c = 0 then 1 else 0) b c h w = one_hot (\<lambda>b h w. 0) b h w c"
  by (simp_all add: one_hot_def)

text \<open>
  C9 as stated fails: one sample of one pixel, two classes, ground truth class 0 and the
  prediction \<open>(1, 0)\<close>, with the default \<open>smooth = 1e-8\<close>; the loss is not 0.
\<close>

theorem dice_onehot_counterexample:
  "dice_coef_loss 1 1 1 (\<lambda>b c h w. if c = 0 then 1 else 0) (\<lambda>b h w. 0) 2 (1 / 10 ^ 8) \<noteq> Inr (Some 0)"
proof -
  have h: "(0::nat) < 1" "(2::nat) \<le> 2" "(0::real) \<le> 1 / 10 ^ 8" by simp_all
  note aux = dice_onehot_aux [OF h(1) h(1) h(1) h(2) h(3) dice_demo_hyps]
  have "0 < (1 - (\<Sum>b<(1::nat). \<Sum>c<(2::nat). dice 1 1 2 (\<lambda>b c h w. if c = 0 then 1 else 0) (\<lambda>b h w. 0) (1 / 10 ^ 8) b c) / real (1 * 2)) +
                  (ln (exp 1 + (real 2 - 1)) - 1)"
    using aux(2) aux(4) by linarith
  then show ?thesis unfolding aux(1) by simp
qed

theorem dice_onehot_strictly_positive_witness:
  "\<exists>L. dice_coef_loss 1 1 1 (\<lambda>b c h w. if c = 0 then 1 else 0) (\<lambda>b h w. 0) 2 (1 / 10 ^ 8) = Inr (Some L) \<and> 0 < L \<and>
       cross_entropy 1 1 1 2 (\<lambda>b c h w. if c = 0 then 1 else 0) (\<lambda>b h w. 0) = ln (exp 1 + 1) - 1"
proof -
  have h: "(0::nat) < 1" "(2::nat) \<le> 2" "(0::real) \<le> 1 / 10 ^ 8" by simp_all
  from dice_onehot_strictly_positive [OF h(1) h(1) h(1) h(2) h(3) dice_demo_hyps]
  show ?thesis by auto
qed

section \<open>Reasoning about steps\<close>

text \<open>
  A step that returns has passed every statement before the return; the lemmas below
  read off, block by block, what each statement computed.
\<close>

lemma bindE_InrE:
  assumes "bindE m f s = (Inr b, s')"
  obtains a s1 where "m s = (Inr a, s1)" "f a s1 = (Inr b, s')"
  using assms unfolding bindE_def by (auto split: prod.splits sum.splits)



lemma returnE_iff [simp]: "returnE a s = (r, s1) \<longleftrightarrow> r = Inr a \<and> s1 = s"
  by (auto simp: returnE_def)

lemma liftE_iff [simp]: "liftE x s = (r, s1) \<longleftrightarrow> x = r \<and> s1 = s"
  by (auto simp: liftE_def)

lemma lookup_Inr_iff [simp]: "lookup b k s = (Inr v, s1) \<longleftrightarrow> b k = Some v \<and> s1 = s"
  by (auto simp: lookup_def split: option.splits)

lemma attr_Inr_iff [simp]: "attr n v s = (Inr f, s1) \<longleftrightarrow> v = Some f \<and> s1 = s"
  by (auto simp: attr_def split: option.splits)

lemma local_var_Inr_iff [simp]: "local_var n v s = (Inr x, s1) \<longleftrightarrow> v = Some x \<and> s1 = s"
  by (auto simp: local_var_def split: option.splits)

lemma draw_iff [simp]:
  "draw f s = (r, s1) \<longleftrightarrow> r = Inr (fst (f (rng s))) \<and> s1 = s\<lparr>rng := snd (f (rng s))\<rparr>"
  by (auto simp: draw_def split: prod.splits)

lemma randint_Inr_iff [simp]:
  "randint tc lo hi n s = (Inr ts, s1) \<longleftrightarrow>
     lo < hi \<and> ts = fst (torch_randint tc lo hi n (rng s)) \<and>
     s1 = s\<lparr>rng := snd (torch_randint tc lo hi n (rng s))\<rparr>"
  by (auto simp: randint_def)

lemma call_net_iff [simp]:
  "call_net n x s = (r, s1) \<longleftrightarrow> x = r \<and> s1 = s\<lparr>trace := trace s @ [NetCall n (grad_enabled s)]\<rparr>"
  by (auto simp: call_net_def)

lemma log_scalar_iff [simp]:
  "log_scalar n v s = (r, s1) \<longleftrightarrow> r = Inr () \<and> s1 = s\<lparr>trace := trace s @ [LogScalar n v]\<rparr>"
  by (auto simp: log_scalar_def emit_def)

lemma emit_iff [simp]:
  "emit ev s = (r, s1) \<longleftrightarrow> r = Inr () \<and> s1 = s\<lparr>trace := trace s @ [ev]\<rparr>"
  by (auto simp: emit_def)

lemma cycle_terms_InrE:
  assumes "cycle_terms m img lbl mid_i mid_l ts s = (Inr cyc, s')"
  obtains i2l l2i pred_label pred_image c1 c2 c3 c4 where
    "diffusion_from_image_to_label m = Some i2l"
    "diffusion_from_label_to_image m = Some l2i"
    "i2l mid_i (PerSample (map (\<lambda>_. 0) ts)) = Inr pred_label"
    "l2i mid_l (PerSample (map (\<lambda>_. 0) ts)) = Inr pred_image"
    "l1_loss m pred_image mid_i = Inr c1"
    "l1_loss m pred_label mid_l = Inr c2"
    "l1_loss m pred_image img = Inr c3"
    "l1_loss m pred_label lbl = Inr c4"
    "cyc = c1 + c2 + c3 + c4"
    "s' = s\<lparr>trace := trace s @ [NetCall DiffusionFromImageToLabel (grad_enabled s),
                                  NetCall DiffusionFromLabelToImage (grad_enabled s)]\<rparr>"
  using assms unfolding cycle_terms_def
  by (elim bindE_InrE) auto

lemma draw_inputs_InrE:
  assumes "draw_inputs tc T batch s = (Inr (img, lbl, unsup, rng_p, rng_u, bs, ts), s')"
  obtains g1 g2 g3 where
    "batch ''image'' = Some img" "batch ''label'' = Some lbl" "batch ''unsup'' = Some unsup"
    "torch_randn_like tc img (rng s) = (rng_p, g1)"
    "torch_randn_like tc unsup g1 = (rng_u, g2)"
    "getitem (shape img) 0 = Inr bs" "0 < T"
    "torch_randint tc 0 T bs g2 = (ts, g3)"
    "s' = s\<lparr>rng := g3\<rparr>"
proof -
  let ?p1 = "torch_randn_like tc img (rng s)"
  let ?p2 = "torch_randn_like tc unsup (snd ?p1)"
  let ?p3 = "torch_randint tc 0 T bs (snd ?p2)"
  from assms that [of "snd ?p1" "snd ?p2" "snd ?p3"] show thesis
    unfolding draw_inputs_def by (elim bindE_InrE) auto
qed

lemma supervised_two_InrE:
  assumes "supervised_two m img lbl rng_p ts s = (Inr (spv, mid_i, mid_l), s')"
  obtains est_i est_l a1 a2 a3 a4 where
    "add_noise (noise_scheduler m) (scale_shift 2 (- 1) img) rng_p ts = Inr mid_i"
    "add_noise (noise_scheduler m) (scale_shift 2 (- 1) lbl) rng_p ts = Inr mid_l"
    "diffusion_image m mid_i (PerSample ts) = Inr est_i"
    "diffusion_label m mid_l (PerSample ts) = Inr est_l"
    "l1_loss m est_i rng_p = Inr a1" "l1_loss m est_l rng_p = Inr a2"
    "l1_loss m est_i img = Inr a3" "l1_loss m est_l lbl = Inr a4"
    "spv = a1 + a2 + a3 + a4"
    "s' = s\<lparr>trace := trace s @ [NetCall DiffusionImage (grad_enabled s),
                                  NetCall DiffusionLabel (grad_enabled s)]\<rparr>"
  using assms unfolding supervised_two_def
  by (elim bindE_InrE) auto

lemma unsupervised_two_InrE:
  assumes "unsupervised_two m unsup rng_u ts s = (Inr ul, s')"
  obtains mid_u est_u u1 u2 where
    "add_noise (noise_scheduler m) (scale_shift 2 (- 1) unsup) rng_u ts = Inr mid_u"
    "diffusion_image m mid_u (PerSample ts) = Inr est_u"
    "l1_loss m est_u rng_u = Inr u1" "l1_loss m est_u unsup = Inr u2"
    "ul = u1 + u2"
    "s' = s\<lparr>trace := trace s @ [NetCall DiffusionImage (grad_enabled s)]\<rparr>"
  using assms unfolding unsupervised_two_def
  by (elim bindE_InrE) auto

lemma loss_part_two_InrE:
  assumes "loss_part_two m tc batch stage s = (Inr (L, img', lbl', unsup'), s')"
  obtains rng_p rng_u bs ts spv mid_i mid_l cyc ul s1 s2 s3 s4 where
    "draw_inputs tc (num_train_timesteps (noise_scheduler m)) batch s
       = (Inr (img', lbl', unsup', rng_p, rng_u, bs, ts), s1)"
    "supervised_two m img' lbl' rng_p ts s1 = (Inr (spv, mid_i, mid_l), s2)"
    "if is_use_cycle m then cycle_terms m img' lbl' mid_i mid_l ts s2 = (Inr cyc, s3)
     else cyc = 0 \<and> s3 = s2"
    "unsupervised_two m unsup' rng_u ts s3 = (Inr ul, s4)"
    "L = spv + cyc + ul"
    "s' = s4\<lparr>trace := trace s4 @ [LogScalar (stage @ ''_super_loss'') (spv + cyc),
                                    LogScalar (stage @ ''_unsup_loss'') ul]\<rparr>"
  using assms unfolding loss_part_two_def Let_def
  by (auto elim!: bindE_InrE split: if_splits)

lemma supervised_one_InrE:
  assumes "supervised_one m img lbl rng_p ts cls_i cls_l s = (Inr spv, s')"
  obtains mid_i mid_l est_i est_l a1 a2 where
    "add_noise (noise_scheduler_one m) (scale_shift 2 (- 1) img) rng_p ts = Inr mid_i"
    "add_noise (noise_scheduler_one m) (scale_shift 2 (- 1) lbl) rng_p ts = Inr mid_l"
    "diffusion m mid_i (PerSample ts) cls_i = Inr est_i"
    "diffusion m mid_l (PerSample ts) cls_l = Inr est_l"
    "loss_func m est_i rng_p = Inr a1" "loss_func m est_l rng_p = Inr a2"
    "spv = a1 + a2"
    "s' = s\<lparr>trace := trace s @ [NetCall Diffusion (grad_enabled s),
                                  NetCall Diffusion (grad_enabled s)]\<rparr>"
  using assms unfolding supervised_one_def
  by (elim bindE_InrE) auto

lemma unsupervised_one_InrE:
  assumes "unsupervised_one m unsup rng_u ts cls_u s = (Inr ul, s')"
  obtains mid_u est_u where
    "add_noise (noise_scheduler_one m) (scale_shift 2 (- 1) unsup) rng_u ts = Inr mid_u"
    "diffusion m mid_u (PerSample ts) cls_u = Inr est_u"
    "loss_func m est_u rng_u = Inr ul"
    "s' = s\<lparr>trace := trace s @ [NetCall Diffusion (grad_enabled s)]\<rparr>"
  using assms unfolding unsupervised_one_def
  by (elim bindE_InrE) auto

lemma loss_part_one_InrE:
  assumes "loss_part_one m tc batch stage s = (Inr (L, img', lbl', unsup', ci, cl), s')"
  obtains rng_p rng_u bs ts gamma spv ul s1 s2 s3 s4 where
    "draw_inputs tc (num_train_timesteps (noise_scheduler_one m)) batch s
       = (Inr (img', lbl', unsup', rng_p, rng_u, bs, ts), s1)"
    "gamma = fst (torch_rand tc bs (rng s1))"
    "s2 = s1\<lparr>rng := snd (torch_rand tc bs (rng s1))\<rparr>"
    "ci = map (\<lambda>_. 0) gamma" "cl = map (\<lambda>_. 1) gamma"
    "supervised_one m img' lbl' rng_p ts ci cl s2 = (Inr spv, s3)"
    "unsupervised_one m unsup' rng_u ts (map (\<lambda>_. 0) gamma) s3 = (Inr ul, s4)"
    "L = spv + ul"
    "s' = s4\<lparr>trace := trace s4 @ [LogScalar (stage @ ''_super_loss'') spv,
                                    LogScalar (stage @ ''_unsup_loss'') ul]\<rparr>"
  using assms unfolding loss_part_one_def Let_def
  by (auto elim!: bindE_InrE split: if_splits)

lemma common_step_one_InrE:
  assumes "common_step_one m tc batch batch_idx stage s = (Inr L, s')"
  obtains img lbl unsup cls_i cls_l s1 where
    "loss_part_one m tc batch stage s = (Inr (L, img, lbl, unsup, cls_i, cls_l), s1)"
    "if stage = ''train'' \<and> batch_idx mod 10 = 0
     then visualize_one m tc stage img lbl unsup cls_i cls_l s1 = (Inr (), s') else s' = s1"
  using assms unfolding common_step_one_def
  by (auto elim!: bindE_InrE split: if_splits)

section \<open>The small instance, evaluated\<close>

text \<open>What each block of the dual/quad-network step computes on the small instance.\<close>

lemma demo_two_sel [simp]:
  "noise_scheduler (demo_two c) = demo_scheduler" "is_use_cycle (demo_two c) = c"
  "num_train_timesteps demo_scheduler = 2" "timesteps demo_scheduler = [1, 0]"
  by (simp_all add: demo_two_def demo_scheduler_def)

lemma demo_draw_inputs:
  "draw_inputs demo_torch 2 demo_batch \<lparr>rng = 0, grad_enabled = b, trace = tr\<rparr> =
     (Inr ((pixels [1, 0]), (pixels [0, 1]),
           (pixels [1, 1]),
           (pixels [0, 0]), (pixels [1, 1]),
           2, [0, 0]), \<lparr>rng = 3, grad_enabled = b, trace = tr\<rparr>)"
  by (simp add: draw_inputs_def bindE_def lookup_def liftE_def draw_def randint_def returnE_def
        demo_torch_def demo_batch_def getitem_def pixels_def numeral_2_eq_2 numeral_3_eq_3)

lemma demo_supervised_two:
  "supervised_two (demo_two c) (pixels [1, 0])
       (pixels [0, 1]) (pixels [0, 0]) [0, 0] s =
     (Inr (11 / 5, (pixels [3 / 5, - (3 / 5)]),
                   (pixels [- (3 / 5), 3 / 5])),
      s\<lparr>trace := trace s @ [NetCall DiffusionImage (grad_enabled s),
                              NetCall DiffusionLabel (grad_enabled s)]\<rparr>)"
  by (simp add: supervised_two_def bindE_def liftE_def call_net_def returnE_def demo_two_def
        demo_scheduler_def demo_add_noise_def demo_loss_def scale_shift_def getitem_def pixels_def)

lemma demo_cycle_terms:
  "cycle_terms (demo_two True) (pixels [1, 0])
       (pixels [0, 1]) (pixels [3 / 5, - (3 / 5)])
       (pixels [- (3 / 5), 3 / 5]) [0, 0] s =
     (Inr (23 / 5),
      s\<lparr>trace := trace s @ [NetCall DiffusionFromImageToLabel (grad_enabled s),
                              NetCall DiffusionFromLabelToImage (grad_enabled s)]\<rparr>)"
  by (simp add: cycle_terms_def bindE_def liftE_def call_net_def returnE_def attr_def demo_two_def
        demo_loss_def pixels_def)

lemma demo_unsupervised_two:
  "unsupervised_two (demo_two c) (pixels [1, 1])
       (pixels [1, 1]) [0, 0] s =
     (Inr (4 / 5), s\<lparr>trace := trace s @ [NetCall DiffusionImage (grad_enabled s)]\<rparr>)"
  by (simp add: unsupervised_two_def bindE_def liftE_def call_net_def returnE_def demo_two_def
        demo_scheduler_def demo_add_noise_def demo_loss_def scale_shift_def getitem_def pixels_def)

lemma demo_loss_part_two_cycle:
  "loss_part_two (demo_two True) demo_torch demo_batch stage \<lparr>rng = 0, grad_enabled = True, trace = []\<rparr> =
     (Inr (38 / 5, (pixels [1, 0]), (pixels [0, 1]),
           (pixels [1, 1])),
      \<lparr>rng = 3, grad_enabled = True,
        trace = [NetCall DiffusionImage True, NetCall DiffusionLabel True,
                 NetCall DiffusionFromImageToLabel True, NetCall DiffusionFromLabelToImage True,
                 NetCall DiffusionImage True,
                 LogScalar (stage @ ''_super_loss'') (34 / 5),
                 LogScalar (stage @ ''_unsup_loss'') (4 / 5)]\<rparr>)"
  by (simp add: loss_part_two_def bindE_def demo_draw_inputs demo_supervised_two demo_cycle_terms
        demo_unsupervised_two log_scalar_def emit_def returnE_def)

lemma demo_loss_part_two_plain:
  "loss_part_two (demo_two False) demo_torch demo_batch stage \<lparr>rng = 0, grad_enabled = True, trace = []\<rparr> =
     (Inr (3, (pixels [1, 0]), (pixels [0, 1]),
           (pixels [1, 1])),
      \<lparr>rng = 3, grad_enabled = True,
        trace = [NetCall DiffusionImage True, NetCall DiffusionLabel True,
                 NetCall DiffusionImage True,
                 LogScalar (stage @ ''_super_loss'') (11 / 5),
                 LogScalar (stage @ ''_unsup_loss'') (4 / 5)]\<rparr>)"
  by (simp add: loss_part_two_def bindE_def demo_draw_inputs demo_supervised_two
        demo_unsupervised_two log_scalar_def emit_def returnE_def)

lemma demo_one_sel [simp]: "noise_scheduler_one demo_one = demo_scheduler"
  by (simp add: demo_one_def)

lemma demo_rand: "torch_rand demo_torch 2 g = ([1 / 2, 1 / 2], Suc g)"
  by (simp add: demo_torch_def numeral_2_eq_2)

lemma demo_supervised_one:
  "supervised_one demo_one (pixels [1, 0]) (pixels [0, 1]) (pixels [0, 0]) [0, 0] ci cl s =
     (Inr (6 / 5),
      s\<lparr>trace := trace s @ [NetCall Diffusion (grad_enabled s), NetCall Diffusion (grad_enabled s)]\<rparr>)"
  by (simp add: supervised_one_def bindE_def liftE_def call_net_def returnE_def demo_one_def
        demo_scheduler_def demo_add_noise_def demo_loss_def scale_shift_def getitem_def pixels_def)

lemma demo_unsupervised_one:
  "unsupervised_one demo_one (pixels [1, 1]) (pixels [1, 1]) [0, 0] cu s =
     (Inr (2 / 5), s\<lparr>trace := trace s @ [NetCall Diffusion (grad_enabled s)]\<rparr>)"
  by (simp add: unsupervised_one_def bindE_def liftE_def call_net_def returnE_def demo_one_def
        demo_scheduler_def demo_add_noise_def demo_loss_def scale_shift_def getitem_def pixels_def)

lemma demo_loss_part_one:
  "loss_part_one demo_one demo_torch demo_batch stage \<lparr>rng = 0, grad_enabled = True, trace = []\<rparr> =
     (Inr (8 / 5, pixels [1, 0], pixels [0, 1], pixels [1, 1], [0, 0], [1, 1]),
      \<lparr>rng = 4, grad_enabled = True,
        trace = [NetCall Diffusion True, NetCall Diffusion True, NetCall Diffusion True,
                 LogScalar (stage @ ''_super_loss'') (6 / 5),
                 LogScalar (stage @ ''_unsup_loss'') (2 / 5)]\<rparr>)"
  by (simp add: loss_part_one_def bindE_def demo_draw_inputs demo_supervised_one
        demo_unsupervised_one log_scalar_def emit_def returnE_def draw_def demo_rand)

lemma demo_step_one:
  "validation_step_one demo_one demo_torch demo_batch 0 demo_state =
     (Inr (8 / 5),
      \<lparr>rng = 4, grad_enabled = True,
        trace = [NetCall Diffusion True, NetCall Diffusion True, NetCall Diffusion True,
                 LogScalar ''validation_super_loss'' (6 / 5),
                 LogScalar ''validation_unsup_loss'' (2 / 5)]\<rparr>)"
  by (simp add: validation_step_one_def common_step_one_def bindE_def demo_state_def
        demo_loss_part_one returnE_def)

lemma demo_randint_contract:
  "\<forall>low high n g. low < high \<longrightarrow>
      length (fst (torch_randint demo_torch low high n g)) = n \<and>
      (\<forall>t \<in> set (fst (torch_randint demo_torch low high n g)). low \<le> t \<and> t < high)"
  by (simp add: demo_torch_def)

section \<open>What a computation appends to the trace\<close>

lemma appends_onlyD:
  assumes "appends_only b m" "m s = (r, s')"
  shows "grad_enabled s' = grad_enabled s"
    and "\<exists>evs. trace s' = trace s @ evs \<and> (b \<or> \<not> grad_enabled s \<longrightarrow> list_all sampling_no_grad evs)"
  using assms unfolding appends_only_def by blast+


lemma appends_only_returnE [intro!, simp]: "appends_only b (returnE a)"
  by (simp add: appends_only_def returnE_def)

lemma appends_only_liftE [intro!, simp]: "appends_only b (liftE x)"
  by (simp add: appends_only_def liftE_def)

lemma appends_only_lookup [intro!, simp]: "appends_only b (lookup batch k)"
  by (simp add: lookup_def)

lemma appends_only_attr [intro!, simp]: "appends_only b (attr n v)"
  by (simp add: attr_def)

lemma appends_only_local_var [intro!, simp]: "appends_only b (local_var n v)"
  by (simp add: local_var_def)

lemma appends_only_draw [intro!, simp]: "appends_only b (draw f)"
  by (auto simp: appends_only_def draw_def split: prod.splits)

lemma appends_only_randint [intro!, simp]: "appends_only b (randint tc low high n)"
  by (simp add: randint_def)

lemma appends_only_log [intro!, simp]:
  "appends_only b (log_scalar n v)" "appends_only b (emit (LogImage n x))"
  by (auto simp: appends_only_def log_scalar_def emit_def)

lemma appends_only_grid_op [intro!, simp]: "appends_only b (grid_op x)"
  by (auto simp: appends_only_def grid_op_def)

lemma appends_only_call_net [intro!, simp]: "appends_only False (call_net n x)"
  by (auto simp: appends_only_def call_net_def)

lemma appends_only_scheduler_step [intro!, simp]: "appends_only False (scheduler_step sch out t x)"
  by (auto simp: appends_only_def scheduler_step_def split: prod.splits)

lemma appends_only_bindE [intro!]:
  assumes "appends_only b m" and "\<And>a. appends_only b (f a)"
  shows "appends_only b (bindE m f)"
  unfolding appends_only_def
proof (intro allI impI)
  fix s r s'
  assume run: "bindE m f s = (r, s')"
  obtain r1 s1 where m: "m s = (r1, s1)" by (cases "m s") auto
  note d1 = appends_onlyD [OF assms(1) m]
  from d1(2) obtain evs1 where e1: "trace s1 = trace s @ evs1"
    "b \<or> \<not> grad_enabled s \<longrightarrow> list_all sampling_no_grad evs1" by blast
  show "grad_enabled s' = grad_enabled s \<and>
        (\<exists>evs. trace s' = trace s @ evs \<and> (b \<or> \<not> grad_enabled s \<longrightarrow> list_all sampling_no_grad evs))"
  proof (cases r1)
    case (Inl e)
    with run m have "s' = s1" by (simp add: bindE_def)
    with d1(1) e1 show ?thesis by blast
  next
    case (Inr a)
    with run m have f: "f a s1 = (r, s')" by (simp add: bindE_def)
    note d2 = appends_onlyD [OF assms(2) f]
    from d2(2) obtain evs2 where e2: "trace s' = trace s1 @ evs2"
      "b \<or> \<not> grad_enabled s1 \<longrightarrow> list_all sampling_no_grad evs2" by blast
    have "trace s' = trace s @ (evs1 @ evs2)" using e1(1) e2(1) by simp
    moreover have "b \<or> \<not> grad_enabled s \<longrightarrow> list_all sampling_no_grad (evs1 @ evs2)"
      using e1(2) e2(2) d1(1) by auto
    ultimately show ?thesis using d1(1) d2(1) by metis
  qed
qed

lemma appends_only_no_grad [intro!]:
  assumes "appends_only False m"
  shows "appends_only b (no_grad m)"
  unfolding appends_only_def
proof (intro allI impI)
  fix s r s'
  assume run: "no_grad m s = (r, s')"
  obtain r1 s1 where m: "m (s\<lparr>grad_enabled := False\<rparr>) = (r1, s1)"
    by (cases "m (s\<lparr>grad_enabled := False\<rparr>)") auto
  with run have s': "s' = s1\<lparr>grad_enabled := grad_enabled s\<rparr>" by (simp add: no_grad_def)
  from appends_onlyD(2) [OF assms m]
  obtain evs where "trace s1 = trace s @ evs" "list_all sampling_no_grad evs" by auto
  with s' show "grad_enabled s' = grad_enabled s \<and>
        (\<exists>evs. trace s' = trace s @ evs \<and> (b \<or> \<not> grad_enabled s \<longrightarrow> list_all sampling_no_grad evs))"
    by simp
qed

lemma appends_only_if [intro!]:
  "(c \<Longrightarrow> appends_only b m) \<Longrightarrow> (\<not> c \<Longrightarrow> appends_only b n) \<Longrightarrow> appends_only b (if c then m else n)"
  by simp

lemma appends_only_case_prod [intro!]:
  "(\<And>x y. appends_only b (f x y)) \<Longrightarrow> appends_only b (case p of (x, y) \<Rightarrow> f x y)"
  by (cases p) simp

lemma appends_only_sample_loop_two: "appends_only False (sample_loop_two m ts acc)"
proof (induction ts arbitrary: acc)
  case Nil
  show ?case by simp
next
  case (Cons t rest)
  obtain sam_i sam_l ci cl where acc: "acc = (sam_i, sam_l, ci, cl)" by (cases acc) auto
  show ?case unfolding acc sample_loop_two.simps prod.case
    by (intro appends_only_bindE appends_only_if Cons.IH) simp_all
qed

lemma appends_only_sample_loop_one: "appends_only False (sample_loop_one m ci cl ts sam)"
proof (induction ts arbitrary: sam)
  case Nil
  show ?case by simp
next
  case (Cons t rest)
  show ?case unfolding sample_loop_one.simps
    by (intro appends_only_bindE Cons.IH) simp_all
qed

lemma appends_only_visualize_two: "appends_only True (visualize_two m tc stage img lbl unsup)"
  unfolding visualize_two_def
  by (intro appends_only_bindE appends_only_no_grad appends_only_if appends_only_case_prod
        appends_only_sample_loop_two) simp_all

lemma appends_only_visualize_one:
  "appends_only True (visualize_one m tc stage img lbl unsup ci cl)"
  unfolding visualize_one_def
  by (intro appends_only_bindE appends_only_no_grad appends_only_sample_loop_one) simp_all

section \<open>The visualization of the small instance, evaluated\<close>

lemma demo_visualize_two:
  "visualize_two (demo_two False) demo_torch st (pixels [1, 0]) (pixels [0, 1]) (pixels [1, 1])
       \<lparr>rng = 3, grad_enabled = True, trace = tr\<rparr> =
     (Inr (),
      \<lparr>rng = 8, grad_enabled = True,
        trace = tr @ [NetCall DiffusionImage False, NetCall DiffusionLabel False,
                      SchedulerStep False, SchedulerStep False,
                      NetCall DiffusionImage False, NetCall DiffusionLabel False,
                      SchedulerStep False, SchedulerStep False,
                      GridOp True, GridOp True,
                      LogImage (st @ ''__samples'')
                        \<lparr>shape = shape (pixels [1, 0]),
                          vals = [1, 0, 0, 1, 1 / 2, 1 / 2, 1 / 2, 1 / 2, 1, 1]\<rparr>]\<rparr>)"
  by (simp add: visualize_two_def no_grad_def bindE_def draw_def returnE_def liftE_def emit_def
        grid_op_def call_net_def scheduler_step_def scale_shift_def demo_two_def
        demo_scheduler_def
        demo_torch_def demo_cat_def pixels_def)

lemma demo_visualize_one:
  "visualize_one demo_one demo_torch st (pixels [1, 0]) (pixels [0, 1]) (pixels [1, 1]) ci cl
       \<lparr>rng = 4, grad_enabled = True, trace = tr\<rparr> =
     (Inr (),
      \<lparr>rng = 9, grad_enabled = True,
        trace = tr @ [NetCall Diffusion False, NetCall Diffusion False,
                      SchedulerStep False, SchedulerStep False,
                      NetCall Diffusion False, NetCall Diffusion False,
                      SchedulerStep False, SchedulerStep False,
                      GridOp True, GridOp True,
                      LogImage (st @ ''_samples'')
                        \<lparr>shape = shape (pixels [1, 0]),
                          vals = [1, 0, 0, 1, 1 / 2, 1 / 2, 1 / 2, 1 / 2, 1, 1]\<rparr>]\<rparr>)"
  by (simp add: visualize_one_def no_grad_def bindE_def draw_def returnE_def liftE_def emit_def
        grid_op_def call_net_def scheduler_step_def scale_shift_def demo_one_def
        demo_scheduler_def
        demo_torch_def demo_cat_def pixels_def)

lemma demo_common_step_two_viz:
  "common_step_two (demo_two False) demo_torch demo_batch 0 ''train''
       \<lparr>rng = 0, grad_enabled = True, trace = []\<rparr> =
     (Inr 3,
      \<lparr>rng = 8, grad_enabled = True,
        trace = [NetCall DiffusionImage True, NetCall DiffusionLabel True,
                 NetCall DiffusionImage True,
                 LogScalar ''train_super_loss'' (11 / 5),
                 LogScalar ''train_unsup_loss'' (4 / 5),
                 NetCall DiffusionImage False, NetCall DiffusionLabel False,
                 SchedulerStep False, SchedulerStep False,
                 NetCall DiffusionImage False, NetCall DiffusionLabel False,
                 SchedulerStep False, SchedulerStep False,
                 GridOp True, GridOp True,
                 LogImage ''train__samples''
                   \<lparr>shape = shape (pixels [1, 0]),
                     vals = [1, 0, 0, 1, 1 / 2, 1 / 2, 1 / 2, 1 / 2, 1, 1]\<rparr>]\<rparr>)"
  by (simp add: common_step_two_def bindE_def demo_loss_part_two_plain demo_visualize_two
        returnE_def)

lemma demo_common_step_two_plain:
  "common_step_two (demo_two False) demo_torch demo_batch 7 ''train''
       \<lparr>rng = 0, grad_enabled = True, trace = []\<rparr> =
     (Inr 3,
      \<lparr>rng = 3, grad_enabled = True,
        trace = [NetCall DiffusionImage True, NetCall DiffusionLabel True,
                 NetCall DiffusionImage True,
                 LogScalar ''train_super_loss'' (11 / 5),
                 LogScalar ''train_unsup_loss'' (4 / 5)]\<rparr>)"
  by (simp add: common_step_two_def bindE_def demo_loss_part_two_plain returnE_def)

lemma demo_common_step_one_viz:
  "common_step_one demo_one demo_torch demo_batch 0 ''train''
       \<lparr>rng = 0, grad_enabled = True, trace = []\<rparr> =
     (Inr (8 / 5),
      \<lparr>rng = 9, grad_enabled = True,
        trace = [NetCall Diffusion True, NetCall Diffusion True, NetCall Diffusion True,
                 LogScalar ''train_super_loss'' (6 / 5),
                 LogScalar ''train_unsup_loss'' (2 / 5),
                 NetCall Diffusion False, NetCall Diffusion False,
                 SchedulerStep False, SchedulerStep False,
                 NetCall Diffusion False, NetCall Diffusion False,
                 SchedulerStep False, SchedulerStep False,
                 GridOp True, GridOp True,
                 LogImage ''train_samples''
                   \<lparr>shape = shape (pixels [1, 0]),
                     vals = [1, 0, 0, 1, 1 / 2, 1 / 2, 1 / 2, 1 / 2, 1, 1]\<rparr>]\<rparr>)"
  by (simp add: common_step_one_def bindE_def demo_loss_part_one demo_visualize_one returnE_def)

lemma demo_common_step_one_plain:
  "common_step_one demo_one demo_torch demo_batch 7 ''train''
       \<lparr>rng = 0, grad_enabled = True, trace = []\<rparr> =
     (Inr (8 / 5),
      \<lparr>rng = 4, grad_enabled = True,
        trace = [NetCall Diffusion True, NetCall Diffusion True, NetCall Diffusion True,
                 LogScalar ''train_super_loss'' (6 / 5),
                 LogScalar ''train_unsup_loss'' (2 / 5)]\<rparr>)"
  by (simp add: common_step_one_def bindE_def demo_loss_part_one returnE_def)

lemma demo_training_step_two_viz:
  "fst (training_step_two (demo_two False) demo_torch demo_batch 0 demo_state) = Inr 3"
  by (simp add: training_step_two_def demo_state_def demo_common_step_two_viz)

lemma demo_training_step_two_plain:
  "fst (training_step_two (demo_two False) demo_torch demo_batch 7 demo_state) = Inr 3"
  by (simp add: training_step_two_def demo_state_def demo_common_step_two_plain)

lemma demo_training_step_one_viz:
  "fst (training_step_one demo_one demo_torch demo_batch 0 demo_state) = Inr (8 / 5)"
  by (simp add: training_step_one_def demo_state_def demo_common_step_one_viz)

lemma demo_training_step_one_plain:
  "fst (training_step_one demo_one demo_torch demo_batch 7 demo_state) = Inr (8 / 5)"
  by (simp add: training_step_one_def demo_state_def demo_common_step_one_plain)

section \<open>The loss of the dual/quad-network step\<close>

lemma common_step_two_InrE:
  assumes "common_step_two m tc batch batch_idx stage s = (Inr L, s')"
  obtains img lbl unsup s1 where
    "loss_part_two m tc batch stage s = (Inr (L, img, lbl, unsup), s1)"
    "if batch_idx = 0 then visualize_two m tc stage img lbl unsup s1 = (Inr (), s') else s' = s1"
  using assms unfolding common_step_two_def
  by (auto elim!: bindE_InrE split: if_splits)

text \<open>
  C1.  Whenever a training, validation or test step of the dual/quad-network module
  returns a loss \<open>L\<close>, that loss is the plain sum of the criterion \<^verbatim>\<open>l1_loss\<close>
  (the smooth-L1 loss) applied to: the image estimate and the label estimate, each
  against the injected paired noise \<^verbatim>\<open>rng_p\<close> and against the clean image and the
  clean label (four supervised terms); the unsup estimate against the injected unsup
  noise \<^verbatim>\<open>rng_u\<close> and against the clean unsup tensor (two unsupervised terms); and, in
  cycle mode and only then, four more terms in which each translation network is
  applied to the noised input of its source domain with all timesteps zero and its
  output is compared with the noised and with the clean tensor of the other domain.
  The estimates are the networks' answers on the tensors that \<^verbatim>\<open>add_noise\<close> returned.
\<close>

theorem dual_variant_loss_terms:
  assumes "entry \<in> {training_step_two, validation_step_two, test_step_two}"
    and "entry m tc batch batch_idx s = (Inr L, s')"
  shows "\<exists>img lbl unsup rng_p rng_u ts mid_i mid_l mid_u est_i est_l est_u a1 a2 a3 a4 u1 u2 cyc.
      batch ''image'' = Some img \<and> batch ''label'' = Some lbl \<and> batch ''unsup'' = Some unsup \<and>
      add_noise (noise_scheduler m) (scale_shift 2 (- 1) img) rng_p ts = Inr mid_i \<and>
      add_noise (noise_scheduler m) (scale_shift 2 (- 1) lbl) rng_p ts = Inr mid_l \<and>
      add_noise (noise_scheduler m) (scale_shift 2 (- 1) unsup) rng_u ts = Inr mid_u \<and>
      diffusion_image m mid_i (PerSample ts) = Inr est_i \<and>
      diffusion_label m mid_l (PerSample ts) = Inr est_l \<and>
      diffusion_image m mid_u (PerSample ts) = Inr est_u \<and>
      l1_loss m est_i rng_p = Inr a1 \<and> l1_loss m est_l rng_p = Inr a2 \<and>
      l1_loss m est_i img = Inr a3 \<and> l1_loss m est_l lbl = Inr a4 \<and>
      l1_loss m est_u rng_u = Inr u1 \<and> l1_loss m est_u unsup = Inr u2 \<and>
      (if is_use_cycle m
       then \<exists>i2l l2i pred_label pred_image c1 c2 c3 c4.
              diffusion_from_image_to_label m = Some i2l \<and>
              diffusion_from_label_to_image m = Some l2i \<and>
              i2l mid_i (PerSample (map (\<lambda>_. 0) ts)) = Inr pred_label \<and>
              l2i mid_l (PerSample (map (\<lambda>_. 0) ts)) = Inr pred_image \<and>
              l1_loss m pred_image mid_i = Inr c1 \<and> l1_loss m pred_label mid_l = Inr c2 \<and>
              l1_loss m pred_image img = Inr c3 \<and> l1_loss m pred_label lbl = Inr c4 \<and>
              cyc = c1 + c2 + c3 + c4
       else cyc = 0) \<and>
      L = (a1 + a2 + a3 + a4) + cyc + (u1 + u2)"
proof -
  from assms obtain stage where "common_step_two m tc batch batch_idx stage s = (Inr L, s')"
    by (auto simp: training_step_two_def validation_step_two_def test_step_two_def)
  then obtain img lbl unsup s1 where
    lp: "loss_part_two m tc batch stage s = (Inr (L, img, lbl, unsup), s1)"
    by (rule common_step_two_InrE)
  from lp obtain rng_p rng_u bs ts spv mid_i mid_l cyc ul s1 s2 s3 s4 where
    di: "draw_inputs tc (num_train_timesteps (noise_scheduler m)) batch s
           = (Inr (img, lbl, unsup, rng_p, rng_u, bs, ts), s1)"
    and sp: "supervised_two m img lbl rng_p ts s1 = (Inr (spv, mid_i, mid_l), s2)"
    and cy: "if is_use_cycle m then cycle_terms m img lbl mid_i mid_l ts s2 = (Inr cyc, s3)
             else cyc = 0 \<and> s3 = s2"
    and un: "unsupervised_two m unsup rng_u ts s3 = (Inr ul, s4)"
    and L: "L = spv + cyc + ul"
    by (rule loss_part_two_InrE)
  from di have keys: "batch ''image'' = Some img" "batch ''label'' = Some lbl"
      "batch ''unsup'' = Some unsup"
    by (auto elim: draw_inputs_InrE)
  from sp obtain est_i est_l a1 a2 a3 a4 where
    s: "add_noise (noise_scheduler m) (scale_shift 2 (- 1) img) rng_p ts = Inr mid_i"
       "add_noise (noise_scheduler m) (scale_shift 2 (- 1) lbl) rng_p ts = Inr mid_l"
       "diffusion_image m mid_i (PerSample ts) = Inr est_i"
       "diffusion_label m mid_l (PerSample ts) = Inr est_l"
       "l1_loss m est_i rng_p = Inr a1" "l1_loss m est_l rng_p = Inr a2"
       "l1_loss m est_i img = Inr a3" "l1_loss m est_l lbl = Inr a4"
       "spv = a1 + a2 + a3 + a4"
    by (rule supervised_two_InrE)
  from un obtain mid_u est_u u1 u2 where
    u: "add_noise (noise_scheduler m) (scale_shift 2 (- 1) unsup) rng_u ts = Inr mid_u"
       "diffusion_image m mid_u (PerSample ts) = Inr est_u"
       "l1_loss m est_u rng_u = Inr u1" "l1_loss m est_u unsup = Inr u2"
       "ul = u1 + u2"
    by (rule unsupervised_two_InrE)
  have c: "if is_use_cycle m
       then \<exists>i2l l2i pred_label pred_image c1 c2 c3 c4.
              diffusion_from_image_to_label m = Some i2l \<and>
              diffusion_from_label_to_image m = Some l2i \<and>
              i2l mid_i (PerSample (map (\<lambda>_. 0) ts)) = Inr pred_label \<and>
              l2i mid_l (PerSample (map (\<lambda>_. 0) ts)) = Inr pred_image \<and>
              l1_loss m pred_image mid_i = Inr c1 \<and> l1_loss m pred_label mid_l = Inr c2 \<and>
              l1_loss m pred_image img = Inr c3 \<and> l1_loss m pred_label lbl = Inr c4 \<and>
              cyc = c1 + c2 + c3 + c4
       else cyc = 0"
  proof (cases "is_use_cycle m")
    case True
    with cy have "cycle_terms m img lbl mid_i mid_l ts s2 = (Inr cyc, s3)" by simp
    then obtain i2l l2i pred_label pred_image c1 c2 c3 c4 where
      "diffusion_from_image_to_label m = Some i2l"
      "diffusion_from_label_to_image m = Some l2i"
      "i2l mid_i (PerSample (map (\<lambda>_. 0) ts)) = Inr pred_label"
      "l2i mid_l (PerSample (map (\<lambda>_. 0) ts)) = Inr pred_image"
      "l1_loss m pred_image mid_i = Inr c1" "l1_loss m pred_label mid_l = Inr c2"
      "l1_loss m pred_image img = Inr c3" "l1_loss m pred_label lbl = Inr c4"
      "cyc = c1 + c2 + c3 + c4"
      by (rule cycle_terms_InrE)
    then have "\<exists>i2l l2i pred_label pred_image c1 c2 c3 c4.
              diffusion_from_image_to_label m = Some i2l \<and>
              diffusion_from_label_to_image m = Some l2i \<and>
              i2l mid_i (PerSample (map (\<lambda>_. 0) ts)) = Inr pred_label \<and>
              l2i mid_l (PerSample (map (\<lambda>_. 0) ts)) = Inr pred_image \<and>
              l1_loss m pred_image mid_i = Inr c1 \<and> l1_loss m pred_label mid_l = Inr c2 \<and>
              l1_loss m pred_image img = Inr c3 \<and> l1_loss m pred_label lbl = Inr c4 \<and>
              cyc = c1 + c2 + c3 + c4"
      by blast
    with True show ?thesis by simp
  next
    case False
    with cy show ?thesis by simp
  qed
  have "L = (a1 + a2 + a3 + a4) + cyc + (u1 + u2)"
    using L s(9) u(5) by simp
  with keys s(1-8) u(1-4) c show ?thesis by blast
qed

lemma demo_step_two_cycle:
  "training_step_two (demo_two True) demo_torch demo_batch 1 demo_state =
     (Inr (38 / 5),
      \<lparr>rng = 3, grad_enabled = True,
        trace = [NetCall DiffusionImage True, NetCall DiffusionLabel True,
                 NetCall DiffusionFromImageToLabel True, NetCall DiffusionFromLabelToImage True,
                 NetCall DiffusionImage True,
                 LogScalar ''train_super_loss'' (34 / 5),
                 LogScalar ''train_unsup_loss'' (4 / 5)]\<rparr>)"
  by (simp add: training_step_two_def common_step_two_def bindE_def demo_state_def
        demo_loss_part_two_cycle returnE_def)

theorem dual_variant_loss_terms_witness:
  "training_step_two \<in> {training_step_two, validation_step_two, test_step_two} \<and>
   training_step_two (demo_two True) demo_torch demo_batch 1 demo_state =
     (Inr (38 / 5),
      \<lparr>rng = 3, grad_enabled = True,
        trace = [NetCall DiffusionImage True, NetCall DiffusionLabel True,
                 NetCall DiffusionFromImageToLabel True, NetCall DiffusionFromLabelToImage True,
                 NetCall DiffusionImage True,
                 LogScalar ''train_super_loss'' (34 / 5),
                 LogScalar ''train_unsup_loss'' (4 / 5)]\<rparr>) \<and>
   (\<exists>img lbl unsup rng_p rng_u ts mid_i mid_l mid_u est_i est_l est_u a1 a2 a3 a4 u1 u2 cyc.
      demo_batch ''image'' = Some img \<and> demo_batch ''label'' = Some lbl \<and>
      demo_batch ''unsup'' = Some unsup \<and>
      add_noise (noise_scheduler (demo_two True)) (scale_shift 2 (- 1) img) rng_p ts = Inr mid_i \<and>
      add_noise (noise_scheduler (demo_two True)) (scale_shift 2 (- 1) lbl) rng_p ts = Inr mid_l \<and>
      add_noise (noise_scheduler (demo_two True)) (scale_shift 2 (- 1) unsup) rng_u ts = Inr mid_u \<and>
      diffusion_image (demo_two True) mid_i (PerSample ts) = Inr est_i \<and>
      diffusion_label (demo_two True) mid_l (PerSample ts) = Inr est_l \<and>
      diffusion_image (demo_two True) mid_u (PerSample ts) = Inr est_u \<and>
      l1_loss (demo_two True) est_i rng_p = Inr a1 \<and> l1_loss (demo_two True) est_l rng_p = Inr a2 \<and>
      l1_loss (demo_two True) est_i img = Inr a3 \<and> l1_loss (demo_two True) est_l lbl = Inr a4 \<and>
      l1_loss (demo_two True) est_u rng_u = Inr u1 \<and> l1_loss (demo_two True) est_u unsup = Inr u2 \<and>
      (if is_use_cycle (demo_two True)
       then \<exists>i2l l2i pred_label pred_image c1 c2 c3 c4.
              diffusion_from_image_to_label (demo_two True) = Some i2l \<and>
              diffusion_from_label_to_image (demo_two True) = Some l2i \<and>
              i2l mid_i (PerSample (map (\<lambda>_. 0) ts)) = Inr pred_label \<and>
              l2i mid_l (PerSample (map (\<lambda>_. 0) ts)) = Inr pred_image \<and>
              l1_loss (demo_two True) pred_image mid_i = Inr c1 \<and>
              l1_loss (demo_two True) pred_label mid_l = Inr c2 \<and>
              l1_loss (demo_two True) pred_image img = Inr c3 \<and>
              l1_loss (demo_two True) pred_label lbl = Inr c4 \<and>
              cyc = c1 + c2 + c3 + c4
       else cyc = 0) \<and>
      38 / 5 = (a1 + a2 + a3 + a4) + cyc + (u1 + u2))"
proof -
  have mem: "training_step_two \<in> {training_step_two, validation_step_two, test_step_two}"
    by simp
  note r = dual_variant_loss_terms [OF mem demo_step_two_cycle]
  show ?thesis by (intro conjI) (rule mem, rule demo_step_two_cycle, rule r)
qed

section \<open>Noise and timesteps of a step\<close>

lemma common_step_two_facts:
  assumes contract: "\<forall>low high n g. low < high \<longrightarrow>
      length (fst (torch_randint tc low high n g)) = n \<and>
      (\<forall>t \<in> set (fst (torch_randint tc low high n g)). low \<le> t \<and> t < high)"
    and run: "common_step_two m tc batch batch_idx stage s = (Inr L, s')"
  shows "(\<exists>img lbl unsup rng_p g1 rng_u g2 bs ts g3 mid_i mid_l mid_u est_i est_l est_u
          a1 a2 a3 a4 u1 u2 cyc.
       batch ''image'' = Some img \<and> batch ''label'' = Some lbl \<and>
       batch ''unsup'' = Some unsup \<and>
       torch_randn_like tc img (rng s) = (rng_p, g1) \<and>
       torch_randn_like tc unsup g1 = (rng_u, g2) \<and>
       getitem (shape img) 0 = Inr bs \<and>
       torch_randint tc 0 (num_train_timesteps (noise_scheduler m)) bs g2 = (ts, g3) \<and>
       length ts = bs \<and> (\<forall>t \<in> set ts. t < num_train_timesteps (noise_scheduler m)) \<and>
       add_noise (noise_scheduler m) (scale_shift 2 (- 1) img) rng_p ts = Inr mid_i \<and>
       add_noise (noise_scheduler m) (scale_shift 2 (- 1) lbl) rng_p ts = Inr mid_l \<and>
       add_noise (noise_scheduler m) (scale_shift 2 (- 1) unsup) rng_u ts = Inr mid_u \<and>
       diffusion_image m mid_i (PerSample ts) = Inr est_i \<and>
       diffusion_label m mid_l (PerSample ts) = Inr est_l \<and>
       diffusion_image m mid_u (PerSample ts) = Inr est_u \<and>
       l1_loss m est_i rng_p = Inr a1 \<and> l1_loss m est_l rng_p = Inr a2 \<and>
       l1_loss m est_i img = Inr a3 \<and> l1_loss m est_l lbl = Inr a4 \<and>
       l1_loss m est_u rng_u = Inr u1 \<and> l1_loss m est_u unsup = Inr u2 \<and>
       (if is_use_cycle m
        then \<exists>i2l l2i pred_label pred_image c1 c2 c3 c4.
               diffusion_from_image_to_label m = Some i2l \<and>
               diffusion_from_label_to_image m = Some l2i \<and>
               i2l mid_i (PerSample (map (\<lambda>_. 0) ts)) = Inr pred_label \<and>
               l2i mid_l (PerSample (map (\<lambda>_. 0) ts)) = Inr pred_image \<and>
               l1_loss m pred_image mid_i = Inr c1 \<and> l1_loss m pred_label mid_l = Inr c2 \<and>
               l1_loss m pred_image img = Inr c3 \<and> l1_loss m pred_label lbl = Inr c4 \<and>
               cyc = c1 + c2 + c3 + c4
        else cyc = 0) \<and>
       L = (a1 + a2 + a3 + a4) + cyc + (u1 + u2) \<and>
       (batch_idx \<noteq> 0 \<longrightarrow> rng s' = g3))"
proof -
  from run obtain img lbl unsup s9 where
    lp: "loss_part_two m tc batch stage s = (Inr (L, img, lbl, unsup), s9)"
    and fin: "if batch_idx = 0 then visualize_two m tc stage img lbl unsup s9 = (Inr (), s')
              else s' = s9"
    by (rule common_step_two_InrE)
  from lp obtain rng_p rng_u bs ts spv mid_i mid_l cyc ul s1 s2 s3 s4 where
    di: "draw_inputs tc (num_train_timesteps (noise_scheduler m)) batch s
           = (Inr (img, lbl, unsup, rng_p, rng_u, bs, ts), s1)"
    and sp: "supervised_two m img lbl rng_p ts s1 = (Inr (spv, mid_i, mid_l), s2)"
    and cy: "if is_use_cycle m then cycle_terms m img lbl mid_i mid_l ts s2 = (Inr cyc, s3)
             else cyc = 0 \<and> s3 = s2"
    and un: "unsupervised_two m unsup rng_u ts s3 = (Inr ul, s4)"
    and L: "L = spv + cyc + ul"
    and s9: "s9 = s4\<lparr>trace := trace s4 @ [LogScalar (stage @ ''_super_loss'') (spv + cyc),
                                    LogScalar (stage @ ''_unsup_loss'') ul]\<rparr>"
    by (rule loss_part_two_InrE)
  from di obtain g1 g2 g3 where
    d: "batch ''image'' = Some img" "batch ''label'' = Some lbl" "batch ''unsup'' = Some unsup"
       "torch_randn_like tc img (rng s) = (rng_p, g1)"
       "torch_randn_like tc unsup g1 = (rng_u, g2)"
       "getitem (shape img) 0 = Inr bs" "0 < num_train_timesteps (noise_scheduler m)"
       "torch_randint tc 0 (num_train_timesteps (noise_scheduler m)) bs g2 = (ts, g3)"
       "s1 = s\<lparr>rng := g3\<rparr>"
    by (rule draw_inputs_InrE)
  from contract d(7) d(8) have c: "length ts = bs"
      "\<forall>t \<in> set ts. t < num_train_timesteps (noise_scheduler m)"
    by (metis fst_conv)+
  from sp obtain est_i est_l a1 a2 a3 a4 where
    a: "add_noise (noise_scheduler m) (scale_shift 2 (- 1) img) rng_p ts = Inr mid_i"
       "add_noise (noise_scheduler m) (scale_shift 2 (- 1) lbl) rng_p ts = Inr mid_l"
       "diffusion_image m mid_i (PerSample ts) = Inr est_i"
       "diffusion_label m mid_l (PerSample ts) = Inr est_l"
       "l1_loss m est_i rng_p = Inr a1" "l1_loss m est_l rng_p = Inr a2"
       "l1_loss m est_i img = Inr a3" "l1_loss m est_l lbl = Inr a4"
       "spv = a1 + a2 + a3 + a4"
       "s2 = s1\<lparr>trace := trace s1 @ [NetCall DiffusionImage (grad_enabled s1),
                                      NetCall DiffusionLabel (grad_enabled s1)]\<rparr>"
    by (rule supervised_two_InrE)
  from un obtain mid_u est_u u1 u2 where
    u: "add_noise (noise_scheduler m) (scale_shift 2 (- 1) unsup) rng_u ts = Inr mid_u"
       "diffusion_image m mid_u (PerSample ts) = Inr est_u"
       "l1_loss m est_u rng_u = Inr u1" "l1_loss m est_u unsup = Inr u2"
       "ul = u1 + u2"
       "s4 = s3\<lparr>trace := trace s3 @ [NetCall DiffusionImage (grad_enabled s3)]\<rparr>"
    by (rule unsupervised_two_InrE)
  have cr: "if is_use_cycle m
        then \<exists>i2l l2i pred_label pred_image c1 c2 c3 c4.
               diffusion_from_image_to_label m = Some i2l \<and>
               diffusion_from_label_to_image m = Some l2i \<and>
               i2l mid_i (PerSample (map (\<lambda>_. 0) ts)) = Inr pred_label \<and>
               l2i mid_l (PerSample (map (\<lambda>_. 0) ts)) = Inr pred_image \<and>
               l1_loss m pred_image mid_i = Inr c1 \<and> l1_loss m pred_label mid_l = Inr c2 \<and>
               l1_loss m pred_image img = Inr c3 \<and> l1_loss m pred_label lbl = Inr c4 \<and>
               cyc = c1 + c2 + c3 + c4
        else cyc = 0" and r3: "rng s3 = rng s2"
  proof -
    show "if is_use_cycle m
        then \<exists>i2l l2i pred_label pred_image c1 c2 c3 c4.
               diffusion_from_image_to_label m = Some i2l \<and>
               diffusion_from_label_to_image m = Some l2i \<and>
               i2l mid_i (PerSample (map (\<lambda>_. 0) ts)) = Inr pred_label \<and>
               l2i mid_l (PerSample (map (\<lambda>_. 0) ts)) = Inr pred_image \<and>
               l1_loss m pred_image mid_i = Inr c1 \<and> l1_loss m pred_label mid_l = Inr c2 \<and>
               l1_loss m pred_image img = Inr c3 \<and> l1_loss m pred_label lbl = Inr c4 \<and>
               cyc = c1 + c2 + c3 + c4
        else cyc = 0"
    proof (cases "is_use_cycle m")
      case True
      with cy have "cycle_terms m img lbl mid_i mid_l ts s2 = (Inr cyc, s3)" by simp
      then obtain i2l l2i pred_label pred_image c1 c2 c3 c4 where
        "diffusion_from_image_to_label m = Some i2l"
        "diffusion_from_label_to_image m = Some l2i"
        "i2l mid_i (PerSample (map (\<lambda>_. 0) ts)) = Inr pred_label"
        "l2i mid_l (PerSample (map (\<lambda>_. 0) ts)) = Inr pred_image"
        "l1_loss m pred_image mid_i = Inr c1" "l1_loss m pred_label mid_l = Inr c2"
        "l1_loss m pred_image img = Inr c3" "l1_loss m pred_label lbl = Inr c4"
        "cyc = c1 + c2 + c3 + c4"
        by (rule cycle_terms_InrE)
      then have "\<exists>i2l l2i pred_label pred_image c1 c2 c3 c4.
               diffusion_from_image_to_label m = Some i2l \<and>
               diffusion_from_label_to_image m = Some l2i \<and>
               i2l mid_i (PerSample (map (\<lambda>_. 0) ts)) = Inr pred_label \<and>
               l2i mid_l (PerSample (map (\<lambda>_. 0) ts)) = Inr pred_image \<and>
               l1_loss m pred_image mid_i = Inr c1 \<and> l1_loss m pred_label mid_l = Inr c2 \<and>
               l1_loss m pred_image img = Inr c3 \<and> l1_loss m pred_label lbl = Inr c4 \<and>
               cyc = c1 + c2 + c3 + c4"
        by blast
      with True show ?thesis by simp
    next
      case False
      with cy show ?thesis by simp
    qed
    show "rng s3 = rng s2"
    proof (cases "is_use_cycle m")
      case True
      with cy have "cycle_terms m img lbl mid_i mid_l ts s2 = (Inr cyc, s3)" by simp
      then show ?thesis by (elim cycle_terms_InrE) simp
    next
      case False
      with cy show ?thesis by simp
    qed
  qed
  have Leq: "L = (a1 + a2 + a3 + a4) + cyc + (u1 + u2)"
    using L a(9) u(5) by simp
  have rng9: "batch_idx \<noteq> 0 \<longrightarrow> rng s' = g3"
    using fin s9 u(6) r3 a(10) d(9) by simp
  show ?thesis
    by (intro exI conjI) (rule d(1-6) d(8) c a(1-8) u(1-4) cr Leq rng9)+
qed

lemma common_step_one_facts:
  assumes contract: "\<forall>low high n g. low < high \<longrightarrow>
      length (fst (torch_randint tc low high n g)) = n \<and>
      (\<forall>t \<in> set (fst (torch_randint tc low high n g)). low \<le> t \<and> t < high)"
    and run: "common_step_one m tc batch batch_idx stage s = (Inr L, s')"
  shows "(\<exists>img lbl unsup rng_p g1 rng_u g2 bs ts g3 gamma g4 mid_i mid_l mid_u est_i est_l est_u
          a1 a2 u1.
       batch ''image'' = Some img \<and> batch ''label'' = Some lbl \<and>
       batch ''unsup'' = Some unsup \<and>
       torch_randn_like tc img (rng s) = (rng_p, g1) \<and>
       torch_randn_like tc unsup g1 = (rng_u, g2) \<and>
       getitem (shape img) 0 = Inr bs \<and>
       torch_randint tc 0 (num_train_timesteps (noise_scheduler_one m)) bs g2 = (ts, g3) \<and>
       length ts = bs \<and> (\<forall>t \<in> set ts. t < num_train_timesteps (noise_scheduler_one m)) \<and>
       torch_rand tc bs g3 = (gamma, g4) \<and>
       add_noise (noise_scheduler_one m) (scale_shift 2 (- 1) img) rng_p ts = Inr mid_i \<and>
       add_noise (noise_scheduler_one m) (scale_shift 2 (- 1) lbl) rng_p ts = Inr mid_l \<and>
       add_noise (noise_scheduler_one m) (scale_shift 2 (- 1) unsup) rng_u ts = Inr mid_u \<and>
       diffusion m mid_i (PerSample ts) (map (\<lambda>_. 0) gamma) = Inr est_i \<and>
       diffusion m mid_l (PerSample ts) (map (\<lambda>_. 1) gamma) = Inr est_l \<and>
       diffusion m mid_u (PerSample ts) (map (\<lambda>_. 0) gamma) = Inr est_u \<and>
       loss_func m est_i rng_p = Inr a1 \<and> loss_func m est_l rng_p = Inr a2 \<and>
       loss_func m est_u rng_u = Inr u1 \<and>
       L = (a1 + a2) + u1 \<and>
       (batch_idx mod 10 \<noteq> 0 \<longrightarrow> rng s' = g4))"
proof -
  from run obtain img lbl unsup ci cl s9 where
    lp: "loss_part_one m tc batch stage s = (Inr (L, img, lbl, unsup, ci, cl), s9)"
    and fin: "if stage = ''train'' \<and> batch_idx mod 10 = 0
              then visualize_one m tc stage img lbl unsup ci cl s9 = (Inr (), s') else s' = s9"
    by (rule common_step_one_InrE)
  from lp obtain rng_p rng_u bs ts gamma spv ul s1 s2 s3 s4 where
    di: "draw_inputs tc (num_train_timesteps (noise_scheduler_one m)) batch s
           = (Inr (img, lbl, unsup, rng_p, rng_u, bs, ts), s1)"
    and ga: "gamma = fst (torch_rand tc bs (rng s1))"
    and s2: "s2 = s1\<lparr>rng := snd (torch_rand tc bs (rng s1))\<rparr>"
    and ci: "ci = map (\<lambda>_. 0) gamma" and cl: "cl = map (\<lambda>_. 1) gamma"
    and sp: "supervised_one m img lbl rng_p ts ci cl s2 = (Inr spv, s3)"
    and un: "unsupervised_one m unsup rng_u ts (map (\<lambda>_. 0) gamma) s3 = (Inr ul, s4)"
    and L: "L = spv + ul"
    and s9: "s9 = s4\<lparr>trace := trace s4 @ [LogScalar (stage @ ''_super_loss'') spv,
                                    LogScalar (stage @ ''_unsup_loss'') ul]\<rparr>"
    by (rule loss_part_one_InrE)
  from di obtain g1 g2 g3 where
    d: "batch ''image'' = Some img" "batch ''label'' = Some lbl" "batch ''unsup'' = Some unsup"
       "torch_randn_like tc img (rng s) = (rng_p, g1)"
       "torch_randn_like tc unsup g1 = (rng_u, g2)"
       "getitem (shape img) 0 = Inr bs" "0 < num_train_timesteps (noise_scheduler_one m)"
       "torch_randint tc 0 (num_train_timesteps (noise_scheduler_one m)) bs g2 = (ts, g3)"
       "s1 = s\<lparr>rng := g3\<rparr>"
    by (rule draw_inputs_InrE)
  from contract d(7) d(8) have c: "length ts = bs"
      "\<forall>t \<in> set ts. t < num_train_timesteps (noise_scheduler_one m)"
    by (metis fst_conv)+
  define g4 where "g4 = snd (torch_rand tc bs g3)"
  have tr: "torch_rand tc bs g3 = (gamma, g4)"
    using ga d(9) by (simp add: g4_def)
  from sp [unfolded ci cl] obtain mid_i mid_l est_i est_l a1 a2 where
    a: "add_noise (noise_scheduler_one m) (scale_shift 2 (- 1) img) rng_p ts = Inr mid_i"
       "add_noise (noise_scheduler_one m) (scale_shift 2 (- 1) lbl) rng_p ts = Inr mid_l"
       "diffusion m mid_i (PerSample ts) (map (\<lambda>_. 0) gamma) = Inr est_i"
       "diffusion m mid_l (PerSample ts) (map (\<lambda>_. 1) gamma) = Inr est_l"
       "loss_func m est_i rng_p = Inr a1" "loss_func m est_l rng_p = Inr a2"
       "spv = a1 + a2"
       "s3 = s2\<lparr>trace := trace s2 @ [NetCall Diffusion (grad_enabled s2),
                                      NetCall Diffusion (grad_enabled s2)]\<rparr>"
    by (rule supervised_one_InrE)
  from un obtain mid_u est_u where
    u: "add_noise (noise_scheduler_one m) (scale_shift 2 (- 1) unsup) rng_u ts = Inr mid_u"
       "diffusion m mid_u (PerSample ts) (map (\<lambda>_. 0) gamma) = Inr est_u"
       "loss_func m est_u rng_u = Inr ul"
       "s4 = s3\<lparr>trace := trace s3 @ [NetCall Diffusion (grad_enabled s3)]\<rparr>"
    by (rule unsupervised_one_InrE)
  have Leq: "L = (a1 + a2) + ul" using L a(7) by simp
  have rng9: "batch_idx mod 10 \<noteq> 0 \<longrightarrow> rng s' = g4"
    using fin s9 u(4) a(8) s2 d(9) by (simp add: g4_def)
  show ?thesis
    by (intro exI conjI) (rule d(1-6) d(8) c tr a(1-6) u(1-3) Leq rng9)+
qed

text \<open>
  C2.  Every step of either module that returns a loss (training, validation or test) has
  drawn \<^verbatim>\<open>rng_p\<close> with \<^verbatim>\<open>randn_like(image)\<close>, then \<^verbatim>\<open>rng_u\<close> with a second,
  separate \<^verbatim>\<open>randn_like(unsup)\<close>, then the timesteps \<^verbatim>\<open>ts\<close> with the single call
  \<^verbatim>\<open>torch.randint(0, T, (bs,))\<close>, \<open>bs\<close> being the batch size of the image; so, given
  that \<^verbatim>\<open>randint\<close> returns \<open>n\<close> values in \<open>[low, high)\<close>, there is one timestep per
  sample and each lies in \<open>[0, T)\<close> (that the values are uniformly distributed is the
  contract of \<^verbatim>\<open>torch.randint\<close>).  The tensors that the step feeds to its networks
  are exactly: the image noised with \<^verbatim>\<open>rng_p\<close> and \<^verbatim>\<open>ts\<close>, the label noised with the
  same \<^verbatim>\<open>rng_p\<close> and the same \<^verbatim>\<open>ts\<close>, and the unsup tensor noised with \<^verbatim>\<open>rng_u\<close>
  and the same \<^verbatim>\<open>ts\<close>, each network receiving \<^verbatim>\<open>ts\<close> as its timesteps; and the
  loss \<open>L\<close> that the step returns is the sum of the criterion on the answers of the
  networks to these tensors (in cycle mode the translation networks, too, receive the
  noised image and the noised label).  A step that does not visualize draws nothing else:
  the generator is left in the state after the draw of \<^verbatim>\<open>ts\<close> (after the draw of
  \<^verbatim>\<open>gamma\<close> in the class-conditioned module).
\<close>

theorem shared_noise_and_timesteps:
  assumes contract: "\<forall>low high n g. low < high \<longrightarrow>
      length (fst (torch_randint tc low high n g)) = n \<and>
      (\<forall>t \<in> set (fst (torch_randint tc low high n g)). low \<le> t \<and> t < high)"
  shows "(entry2 \<in> {training_step_two, validation_step_two, test_step_two} \<and>
          entry2 m2 tc batch batch_idx s = (Inr L, s') \<longrightarrow>
     (\<exists>img lbl unsup rng_p g1 rng_u g2 bs ts g3 mid_i mid_l mid_u est_i est_l est_u
          a1 a2 a3 a4 u1 u2 cyc.
       batch ''image'' = Some img \<and> batch ''label'' = Some lbl \<and>
       batch ''unsup'' = Some unsup \<and>
       torch_randn_like tc img (rng s) = (rng_p, g1) \<and>
       torch_randn_like tc unsup g1 = (rng_u, g2) \<and>
       getitem (shape img) 0 = Inr bs \<and>
       torch_randint tc 0 (num_train_timesteps (noise_scheduler m2)) bs g2 = (ts, g3) \<and>
       length ts = bs \<and> (\<forall>t \<in> set ts. t < num_train_timesteps (noise_scheduler m2)) \<and>
       add_noise (noise_scheduler m2) (scale_shift 2 (- 1) img) rng_p ts = Inr mid_i \<and>
       add_noise (noise_scheduler m2) (scale_shift 2 (- 1) lbl) rng_p ts = Inr mid_l \<and>
       add_noise (noise_scheduler m2) (scale_shift 2 (- 1) unsup) rng_u ts = Inr mid_u \<and>
       diffusion_image m2 mid_i (PerSample ts) = Inr est_i \<and>
       diffusion_label m2 mid_l (PerSample ts) = Inr est_l \<and>
       diffusion_image m2 mid_u (PerSample ts) = Inr est_u \<and>
       l1_loss m2 est_i rng_p = Inr a1 \<and> l1_loss m2 est_l rng_p = Inr a2 \<and>
       l1_loss m2 est_i img = Inr a3 \<and> l1_loss m2 est_l lbl = Inr a4 \<and>
       l1_loss m2 est_u rng_u = Inr u1 \<and> l1_loss m2 est_u unsup = Inr u2 \<and>
       (if is_use_cycle m2
        then \<exists>i2l l2i pred_label pred_image c1 c2 c3 c4.
               diffusion_from_image_to_label m2 = Some i2l \<and>
               diffusion_from_label_to_image m2 = Some l2i \<and>
               i2l mid_i (PerSample (map (\<lambda>_. 0) ts)) = Inr pred_label \<and>
               l2i mid_l (PerSample (map (\<lambda>_. 0) ts)) = Inr pred_image \<and>
               l1_loss m2 pred_image mid_i = Inr c1 \<and> l1_loss m2 pred_label mid_l = Inr c2 \<and>
               l1_loss m2 pred_image img = Inr c3 \<and> l1_loss m2 pred_label lbl = Inr c4 \<and>
               cyc = c1 + c2 + c3 + c4
        else cyc = 0) \<and>
       L = (a1 + a2 + a3 + a4) + cyc + (u1 + u2) \<and>
       (batch_idx \<noteq> 0 \<longrightarrow> rng s' = g3))) \<and>
         (entry1 \<in> {training_step_one, validation_step_one, test_step_one} \<and>
          entry1 m1 tc batch batch_idx s = (Inr L, s') \<longrightarrow>
     (\<exists>img lbl unsup rng_p g1 rng_u g2 bs ts g3 gamma g4 mid_i mid_l mid_u est_i est_l est_u
          a1 a2 u1.
       batch ''image'' = Some img \<and> batch ''label'' = Some lbl \<and>
       batch ''unsup'' = Some unsup \<and>
       torch_randn_like tc img (rng s) = (rng_p, g1) \<and>
       torch_randn_like tc unsup g1 = (rng_u, g2) \<and>
       getitem (shape img) 0 = Inr bs \<and>
       torch_randint tc 0 (num_train_timesteps (noise_scheduler_one m1)) bs g2 = (ts, g3) \<and>
       length ts = bs \<and> (\<forall>t \<in> set ts. t < num_train_timesteps (noise_scheduler_one m1)) \<and>
       torch_rand tc bs g3 = (gamma, g4) \<and>
       add_noise (noise_scheduler_one m1) (scale_shift 2 (- 1) img) rng_p ts = Inr mid_i \<and>
       add_noise (noise_scheduler_one m1) (scale_shift 2 (- 1) lbl) rng_p ts = Inr mid_l \<and>
       add_noise (noise_scheduler_one m1) (scale_shift 2 (- 1) unsup) rng_u ts = Inr mid_u \<and>
       diffusion m1 mid_i (PerSample ts) (map (\<lambda>_. 0) gamma) = Inr est_i \<and>
       diffusion m1 mid_l (PerSample ts) (map (\<lambda>_. 1) gamma) = Inr est_l \<and>
       diffusion m1 mid_u (PerSample ts) (map (\<lambda>_. 0) gamma) = Inr est_u \<and>
       loss_func m1 est_i rng_p = Inr a1 \<and> loss_func m1 est_l rng_p = Inr a2 \<and>
       loss_func m1 est_u rng_u = Inr u1 \<and>
       L = (a1 + a2) + u1 \<and>
       (batch_idx mod 10 \<noteq> 0 \<longrightarrow> rng s' = g4)))"
proof (intro conjI impI)
  assume "entry2 \<in> {training_step_two, validation_step_two, test_step_two} \<and>
          entry2 m2 tc batch batch_idx s = (Inr L, s')"
  then obtain stage where "common_step_two m2 tc batch batch_idx stage s = (Inr L, s')"
    by (auto simp: training_step_two_def validation_step_two_def test_step_two_def)
  then show "(\<exists>img lbl unsup rng_p g1 rng_u g2 bs ts g3 mid_i mid_l mid_u est_i est_l est_u
          a1 a2 a3 a4 u1 u2 cyc.
       batch ''image'' = Some img \<and> batch ''label'' = Some lbl \<and>
       batch ''unsup'' = Some unsup \<and>
       torch_randn_like tc img (rng s) = (rng_p, g1) \<and>
       torch_randn_like tc unsup g1 = (rng_u, g2) \<and>
       getitem (shape img) 0 = Inr bs \<and>
       torch_randint tc 0 (num_train_timesteps (noise_scheduler m2)) bs g2 = (ts, g3) \<and>
       length ts = bs \<and> (\<forall>t \<in> set ts. t < num_train_timesteps (noise_scheduler m2)) \<and>
       add_noise (noise_scheduler m2) (scale_shift 2 (- 1) img) rng_p ts = Inr mid_i \<and>
       add_noise (noise_scheduler m2) (scale_shift 2 (- 1) lbl) rng_p ts = Inr mid_l \<and>
       add_noise (noise_scheduler m2) (scale_shift 2 (- 1) unsup) rng_u ts = Inr mid_u \<and>
       diffusion_image m2 mid_i (PerSample ts) = Inr est_i \<and>
       diffusion_label m2 mid_l (PerSample ts) = Inr est_l \<and>
       diffusion_image m2 mid_u (PerSample ts) = Inr est_u \<and>
       l1_loss m2 est_i rng_p = Inr a1 \<and> l1_loss m2 est_l rng_p = Inr a2 \<and>
       l1_loss m2 est_i img = Inr a3 \<and> l1_loss m2 est_l lbl = Inr a4 \<and>
       l1_loss m2 est_u rng_u = Inr u1 \<and> l1_loss m2 est_u unsup = Inr u2 \<and>
       (if is_use_cycle m2
        then \<exists>i2l l2i pred_label pred_image c1 c2 c3 c4.
               diffusion_from_image_to_label m2 = Some i2l \<and>
               diffusion_from_label_to_image m2 = Some l2i \<and>
               i2l mid_i (PerSample (map (\<lambda>_. 0) ts)) = Inr pred_label \<and>
               l2i mid_l (PerSample (map (\<lambda>_. 0) ts)) = Inr pred_image \<and>
               l1_loss m2 pred_image mid_i = Inr c1 \<and> l1_loss m2 pred_label mid_l = Inr c2 \<and>
               l1_loss m2 pred_image img = Inr c3 \<and> l1_loss m2 pred_label lbl = Inr c4 \<and>
               cyc = c1 + c2 + c3 + c4
        else cyc = 0) \<and>
       L = (a1 + a2 + a3 + a4) + cyc + (u1 + u2) \<and>
       (batch_idx \<noteq> 0 \<longrightarrow> rng s' = g3))"
    by (rule common_step_two_facts [OF contract])
next
  assume "entry1 \<in> {training_step_one, validation_step_one, test_step_one} \<and>
          entry1 m1 tc batch batch_idx s = (Inr L, s')"
  then obtain stage where "common_step_one m1 tc batch batch_idx stage s = (Inr L, s')"
    by (auto simp: training_step_one_def validation_step_one_def test_step_one_def)
  then show "(\<exists>img lbl unsup rng_p g1 rng_u g2 bs ts g3 gamma g4 mid_i mid_l mid_u est_i est_l est_u
          a1 a2 u1.
       batch ''image'' = Some img \<and> batch ''label'' = Some lbl \<and>
       batch ''unsup'' = Some unsup \<and>
       torch_randn_like tc img (rng s) = (rng_p, g1) \<and>
       torch_randn_like tc unsup g1 = (rng_u, g2) \<and>
       getitem (shape img) 0 = Inr bs \<and>
       torch_randint tc 0 (num_train_timesteps (noise_scheduler_one m1)) bs g2 = (ts, g3) \<and>
       length ts = bs \<and> (\<forall>t \<in> set ts. t < num_train_timesteps (noise_scheduler_one m1)) \<and>
       torch_rand tc bs g3 = (gamma, g4) \<and>
       add_noise (noise_scheduler_one m1) (scale_shift 2 (- 1) img) rng_p ts = Inr mid_i \<and>
       add_noise (noise_scheduler_one m1) (scale_shift 2 (- 1) lbl) rng_p ts = Inr mid_l \<and>
       add_noise (noise_scheduler_one m1) (scale_shift 2 (- 1) unsup) rng_u ts = Inr mid_u \<and>
       diffusion m1 mid_i (PerSample ts) (map (\<lambda>_. 0) gamma) = Inr est_i \<and>
       diffusion m1 mid_l (PerSample ts) (map (\<lambda>_. 1) gamma) = Inr est_l \<and>
       diffusion m1 mid_u (PerSample ts) (map (\<lambda>_. 0) gamma) = Inr est_u \<and>
       loss_func m1 est_i rng_p = Inr a1 \<and> loss_func m1 est_l rng_p = Inr a2 \<and>
       loss_func m1 est_u rng_u = Inr u1 \<and>
       L = (a1 + a2) + u1 \<and>
       (batch_idx mod 10 \<noteq> 0 \<longrightarrow> rng s' = g4))"
    by (rule common_step_one_facts [OF contract])
qed

lemma demo_training_step_one:
  "training_step_one demo_one demo_torch demo_batch 3 demo_state =
     (Inr (8 / 5),
      \<lparr>rng = 4, grad_enabled = True,
        trace = [NetCall Diffusion True, NetCall Diffusion True, NetCall Diffusion True,
                 LogScalar ''train_super_loss'' (6 / 5),
                 LogScalar ''train_unsup_loss'' (2 / 5)]\<rparr>)"
  by (simp add: training_step_one_def common_step_one_def bindE_def demo_state_def
        demo_loss_part_one returnE_def)

theorem shared_noise_and_timesteps_witness:
  "fst (training_step_two (demo_two True) demo_torch demo_batch 1 demo_state) = Inr (38 / 5) \<and>
   fst (training_step_one demo_one demo_torch demo_batch 3 demo_state) = Inr (8 / 5) \<and>
   (\<exists>img lbl unsup rng_p g1 rng_u g2 bs ts g3 mid_i mid_l mid_u est_i est_l est_u
          a1 a2 a3 a4 u1 u2 cyc.
       demo_batch ''image'' = Some img \<and> demo_batch ''label'' = Some lbl \<and>
       demo_batch ''unsup'' = Some unsup \<and>
       torch_randn_like demo_torch img (rng demo_state) = (rng_p, g1) \<and>
       torch_randn_like demo_torch unsup g1 = (rng_u, g2) \<and>
       getitem (shape img) 0 = Inr bs \<and>
       torch_randint demo_torch 0 (num_train_timesteps (noise_scheduler (demo_two True))) bs g2 = (ts, g3) \<and>
       length ts = bs \<and> (\<forall>t \<in> set ts. t < num_train_timesteps (noise_scheduler (demo_two True))) \<and>
       add_noise (noise_scheduler (demo_two True)) (scale_shift 2 (- 1) img) rng_p ts = Inr mid_i \<and>
       add_noise (noise_scheduler (demo_two True)) (scale_shift 2 (- 1) lbl) rng_p ts = Inr mid_l \<and>
       add_noise (noise_scheduler (demo_two True)) (scale_shift 2 (- 1) unsup) rng_u ts = Inr mid_u \<and>
       diffusion_image (demo_two True) mid_i (PerSample ts) = Inr est_i \<and>
       diffusion_label (demo_two True) mid_l (PerSample ts) = Inr est_l \<and>
       diffusion_image (demo_two True) mid_u (PerSample ts) = Inr est_u \<and>
       l1_loss (demo_two True) est_i rng_p = Inr a1 \<and> l1_loss (demo_two True) est_l rng_p = Inr a2 \<and>
       l1_loss (demo_two True) est_i img = Inr a3 \<and> l1_loss (demo_two True) est_l lbl = Inr a4 \<and>
       l1_loss (demo_two True) est_u rng_u = Inr u1 \<and> l1_loss (demo_two True) est_u unsup = Inr u2 \<and>
       (if is_use_cycle (demo_two True)
        then \<exists>i2l l2i pred_label pred_image c1 c2 c3 c4.
               diffusion_from_image_to_label (demo_two True) = Some i2l \<and>
               diffusion_from_label_to_image (demo_two True) = Some l2i \<and>
               i2l mid_i (PerSample (map (\<lambda>_. 0) ts)) = Inr pred_label \<and>
               l2i mid_l (PerSample (map (\<lambda>_. 0) ts)) = Inr pred_image \<and>
               l1_loss (demo_two True) pred_image mid_i = Inr c1 \<and> l1_loss (demo_two True) pred_label mid_l = Inr c2 \<and>
               l1_loss (demo_two True) pred_image img = Inr c3 \<and> l1_loss (demo_two True) pred_label lbl = Inr c4 \<and>
               cyc = c1 + c2 + c3 + c4
        else cyc = 0) \<and>
       38 / 5 = (a1 + a2 + a3 + a4) + cyc + (u1 + u2) \<and>
       ((1::nat) \<noteq> 0 \<longrightarrow> rng \<lparr>rng = 3, grad_enabled = True,
            trace = [NetCall DiffusionImage True, NetCall DiffusionLabel True,
                     NetCall DiffusionFromImageToLabel True, NetCall DiffusionFromLabelToImage True,
                     NetCall DiffusionImage True,
                     LogScalar ''train_super_loss'' (34 / 5),
                     LogScalar ''train_unsup_loss'' (4 / 5)]\<rparr> = g3)) \<and>
   (\<exists>img lbl unsup rng_p g1 rng_u g2 bs ts g3 gamma g4 mid_i mid_l mid_u est_i est_l est_u
          a1 a2 u1.
       demo_batch ''image'' = Some img \<and> demo_batch ''label'' = Some lbl \<and>
       demo_batch ''unsup'' = Some unsup \<and>
       torch_randn_like demo_torch img (rng demo_state) = (rng_p, g1) \<and>
       torch_randn_like demo_torch unsup g1 = (rng_u, g2) \<and>
       getitem (shape img) 0 = Inr bs \<and>
       torch_randint demo_torch 0 (num_train_timesteps (noise_scheduler_one demo_one)) bs g2 = (ts, g3) \<and>
       length ts = bs \<and> (\<forall>t \<in> set ts. t < num_train_timesteps (noise_scheduler_one demo_one)) \<and>
       torch_rand demo_torch bs g3 = (gamma, g4) \<and>
       add_noise (noise_scheduler_one demo_one) (scale_shift 2 (- 1) img) rng_p ts = Inr mid_i \<and>
       add_noise (noise_scheduler_one demo_one) (scale_shift 2 (- 1) lbl) rng_p ts = Inr mid_l \<and>
       add_noise (noise_scheduler_one demo_one) (scale_shift 2 (- 1) unsup) rng_u ts = Inr mid_u \<and>
       diffusion demo_one mid_i (PerSample ts) (map (\<lambda>_. 0) gamma) = Inr est_i \<and>
       diffusion demo_one mid_l (PerSample ts) (map (\<lambda>_. 1) gamma) = Inr est_l \<and>
       diffusion demo_one mid_u (PerSample ts) (map (\<lambda>_. 0) gamma) = Inr est_u \<and>
       loss_func demo_one est_i rng_p = Inr a1 \<and> loss_func demo_one est_l rng_p = Inr a2 \<and>
       loss_func demo_one est_u rng_u = Inr u1 \<and>
       8 / 5 = (a1 + a2) + u1 \<and>
       ((3::nat) mod 10 \<noteq> 0 \<longrightarrow> rng \<lparr>rng = 4, grad_enabled = True,
            trace = [NetCall Diffusion True, NetCall Diffusion True, NetCall Diffusion True,
                     LogScalar ''train_super_loss'' (6 / 5),
                     LogScalar ''train_unsup_loss'' (2 / 5)]\<rparr> = g4))"
proof -
  have m2: "training_step_two \<in> {training_step_two, validation_step_two, test_step_two}"
    and m1: "training_step_one \<in> {training_step_one, validation_step_one, test_step_one}"
    by simp_all
  note r2 = shared_noise_and_timesteps
    [where ?entry2.0 = training_step_two and ?m2.0 = "demo_two True" and batch = demo_batch
       and batch_idx = 1 and s = demo_state and L = "38 / 5",
     OF demo_randint_contract, THEN conjunct1, THEN mp, OF conjI [OF m2 demo_step_two_cycle]]
  note r1 = shared_noise_and_timesteps
    [where ?entry1.0 = training_step_one and ?m1.0 = demo_one and batch = demo_batch
       and batch_idx = 3 and s = demo_state and L = "8 / 5",
     OF demo_randint_contract, THEN conjunct2, THEN mp, OF conjI [OF m1 demo_training_step_one]]
  show ?thesis
    by (intro conjI)
      (simp only: demo_step_two_cycle fst_conv, simp only: demo_training_step_one fst_conv,
       rule r2, rule r1)
qed

section \<open>The visualization and the returned loss\<close>

lemma loss_part_two_stage_free:
  assumes "loss_part_two m tc batch st1 s = (Inr (L1, x1), s1)"
    and "loss_part_two m tc batch st2 s = (Inr (L2, x2), s2)"
  shows "L1 = L2"
proof -
  obtain i1 l1 u1 where x1: "x1 = (i1, l1, u1)" by (cases x1) auto
  obtain i2 l2 u2 where x2: "x2 = (i2, l2, u2)" by (cases x2) auto
  from assms(1) [unfolded x1] assms(2) [unfolded x2] show ?thesis
    by (elim loss_part_two_InrE) (auto split: if_splits)
qed

lemma loss_part_one_stage_free:
  assumes "loss_part_one m tc batch st1 s = (Inr (L1, x1), s1)"
    and "loss_part_one m tc batch st2 s = (Inr (L2, x2), s2)"
  shows "L1 = L2"
proof -
  obtain i1 l1 u1 c1 d1 where x1: "x1 = (i1, l1, u1, c1, d1)" by (cases x1) auto
  obtain i2 l2 u2 c2 d2 where x2: "x2 = (i2, l2, u2, c2, d2)" by (cases x2) auto
  from assms(1) [unfolded x1] assms(2) [unfolded x2] show ?thesis
    by (elim loss_part_one_InrE) auto
qed

lemma after_loss_two:
  assumes lp: "loss_part_two m tc batch st s = (Inr (L, x), s1)"
    and run: "common_step_two m tc batch i st s = (r, s')"
  shows "(r = Inr L \<or> (\<exists>e. r = Inl e)) \<and> grad_enabled s' = grad_enabled s1 \<and>
         (\<exists>evs. trace s' = trace s1 @ evs \<and> list_all sampling_no_grad evs)"
proof (cases "i = 0")
  case False
  with lp run have "r = Inr L" "s' = s1"
    by (auto simp: common_step_two_def bindE_def returnE_def split: prod.splits)
  then show ?thesis by simp
next
  case True
  obtain img lbl unsup where x: "x = (img, lbl, unsup)" by (cases x) auto
  obtain rv s2 where v: "visualize_two m tc st img lbl unsup s1 = (rv, s2)"
    by (cases "visualize_two m tc st img lbl unsup s1") auto
  from lp run True x v have "s' = s2" "r = Inr L \<or> (\<exists>e. r = Inl e)"
    by (auto simp: common_step_two_def bindE_def returnE_def split: sum.splits)
  with appends_onlyD [OF appends_only_visualize_two v] show ?thesis by simp
qed

lemma after_loss_one:
  assumes lp: "loss_part_one m tc batch st s = (Inr (L, x), s1)"
    and run: "common_step_one m tc batch i st s = (r, s')"
  shows "(r = Inr L \<or> (\<exists>e. r = Inl e)) \<and> grad_enabled s' = grad_enabled s1 \<and>
         (\<exists>evs. trace s' = trace s1 @ evs \<and> list_all sampling_no_grad evs)"
proof (cases "st = ''train'' \<and> i mod 10 = 0")
  case False
  with lp run have "r = Inr L" "s' = s1"
    by (auto simp: common_step_one_def bindE_def returnE_def split: prod.splits)
  then show ?thesis by simp
next
  case True
  obtain img lbl unsup ci cl where x: "x = (img, lbl, unsup, ci, cl)" by (cases x) auto
  obtain rv s2 where v: "visualize_one m tc st img lbl unsup ci cl s1 = (rv, s2)"
    by (cases "visualize_one m tc st img lbl unsup ci cl s1") auto
  from lp run True x v have "s' = s2" "r = Inr L \<or> (\<exists>e. r = Inl e)"
    by (auto simp: common_step_one_def bindE_def returnE_def split: sum.splits)
  with appends_onlyD [OF appends_only_visualize_one v] show ?thesis by simp
qed

text \<open>
  The claim of C6 that the visualization runs entirely with the gradient mode off does not
  hold.  In both scripts the block \<^verbatim>\<open>with torch.no_grad():\<close> ends after the samples
  are rescaled; \<^verbatim>\<open>torch.cat\<close> and \<^verbatim>\<open>make_grid\<close>, which compose the grid, follow
  it and run in the gradient mode of the caller.  A training step of the small instance
  with batch index 0, started with the mode on: the loss part leaves five events, the
  visualization appends eleven, and its two grid operations are recorded with the mode
  on.
\<close>

theorem visualization_grid_counterexample:
  "training_step_two (demo_two False) demo_torch demo_batch 0 demo_state =
     (Inr 3,
      \<lparr>rng = 8, grad_enabled = True,
        trace = [NetCall DiffusionImage True, NetCall DiffusionLabel True,
                 NetCall DiffusionImage True,
                 LogScalar ''train_super_loss'' (11 / 5),
                 LogScalar ''train_unsup_loss'' (4 / 5),
                 NetCall DiffusionImage False, NetCall DiffusionLabel False,
                 SchedulerStep False, SchedulerStep False,
                 NetCall DiffusionImage False, NetCall DiffusionLabel False,
                 SchedulerStep False, SchedulerStep False,
                 GridOp True, GridOp True,
                 LogImage ''train__samples''
                   \<lparr>shape = [2, 1, 1, 1],
                     vals = [1, 0, 0, 1, 1 / 2, 1 / 2, 1 / 2, 1 / 2, 1, 1]\<rparr>]\<rparr>) \<and>
   length (trace (snd (loss_part_two (demo_two False) demo_torch demo_batch ''train''
                         demo_state))) = 5 \<and>
   \<not> list_all no_grad_event
       (drop 5 (trace (snd (training_step_two (demo_two False) demo_torch demo_batch 0
                              demo_state)))) \<and>
   training_step_one demo_one demo_torch demo_batch 0 demo_state =
     (Inr (8 / 5),
      \<lparr>rng = 9, grad_enabled = True,
        trace = [NetCall Diffusion True, NetCall Diffusion True, NetCall Diffusion True,
                 LogScalar ''train_super_loss'' (6 / 5),
                 LogScalar ''train_unsup_loss'' (2 / 5),
                 NetCall Diffusion False, NetCall Diffusion False,
                 SchedulerStep False, SchedulerStep False,
                 NetCall Diffusion False, NetCall Diffusion False,
                 SchedulerStep False, SchedulerStep False,
                 GridOp True, GridOp True,
                 LogImage ''train_samples''
                   \<lparr>shape = [2, 1, 1, 1],
                     vals = [1, 0, 0, 1, 1 / 2, 1 / 2, 1 / 2, 1 / 2, 1, 1]\<rparr>]\<rparr>) \<and>
   length (trace (snd (loss_part_one demo_one demo_torch demo_batch ''train''
                         demo_state))) = 5 \<and>
   \<not> list_all no_grad_event
       (drop 5 (trace (snd (training_step_one demo_one demo_torch demo_batch 0
                              demo_state))))"
  by (simp add: training_step_two_def training_step_one_def demo_state_def
        demo_common_step_two_viz demo_common_step_one_viz
        demo_loss_part_two_plain demo_loss_part_one pixels_def)

text \<open>
  C6 (as amended).  The visualization never influences the loss that a step returns, and
  it samples with the gradient mode off.  For both modules: (a) two training, validation
  or test steps on the same batch from the same state return the same loss whatever
  their batch indices and stages are, so whether the visualization executes
  (\<^verbatim>\<open>batch_idx == 0\<close>; in the class-conditioned module
  \<^verbatim>\<open>stage == 'train' and batch_idx % 10 == 0\<close>) or not; (b) once the loss \<open>L\<close> has
  been computed in state \<open>s1\<close>, the step returns \<open>L\<close> itself, unless the
  visualization raises; it ends in the gradient mode of \<open>s1\<close>; and every network
  invocation and every scheduler step that it still makes is recorded with the gradient
  mode off.  The grid is composed (\<^verbatim>\<open>torch.cat\<close>, \<^verbatim>\<open>make_grid\<close>) and logged after
  the \<^verbatim>\<open>with torch.no_grad()\<close> block, in the gradient mode of \<open>s1\<close>, from the
  batch tensors and the samples made inside the block.
\<close>

theorem visualization_keeps_loss:
  "(entry2 \<in> {training_step_two, validation_step_two, test_step_two} \<and>
    entry2' \<in> {training_step_two, validation_step_two, test_step_two} \<and>
    entry2 m2 tc batch i s = (Inr L, s') \<and> entry2' m2 tc batch j s = (Inr L', s'')
      \<longrightarrow> L = L') \<and>
   (loss_part_two m2 tc batch st s = (Inr (L, x2), s1) \<and>
    common_step_two m2 tc batch i st s = (r, s') \<longrightarrow>
      (r = Inr L \<or> (\<exists>e. r = Inl e)) \<and> grad_enabled s' = grad_enabled s1 \<and>
      (\<exists>evs. trace s' = trace s1 @ evs \<and> list_all sampling_no_grad evs)) \<and>
   (entry1 \<in> {training_step_one, validation_step_one, test_step_one} \<and>
    entry1' \<in> {training_step_one, validation_step_one, test_step_one} \<and>
    entry1 m1 tc batch i s = (Inr L, s') \<and> entry1' m1 tc batch j s = (Inr L', s'')
      \<longrightarrow> L = L') \<and>
   (loss_part_one m1 tc batch st s = (Inr (L, x1), s1) \<and>
    common_step_one m1 tc batch i st s = (r, s') \<longrightarrow>
      (r = Inr L \<or> (\<exists>e. r = Inl e)) \<and> grad_enabled s' = grad_enabled s1 \<and>
      (\<exists>evs. trace s' = trace s1 @ evs \<and> list_all sampling_no_grad evs))"
proof (intro conjI impI)
  assume "entry2 \<in> {training_step_two, validation_step_two, test_step_two} \<and>
    entry2' \<in> {training_step_two, validation_step_two, test_step_two} \<and>
    entry2 m2 tc batch i s = (Inr L, s') \<and> entry2' m2 tc batch j s = (Inr L', s'')"
  then obtain st st' where "common_step_two m2 tc batch i st s = (Inr L, s')"
    "common_step_two m2 tc batch j st' s = (Inr L', s'')"
    unfolding training_step_two_def validation_step_two_def test_step_two_def by blast
  then show "L = L'"
    by (auto elim!: common_step_two_InrE dest: loss_part_two_stage_free)
next
  assume "entry1 \<in> {training_step_one, validation_step_one, test_step_one} \<and>
    entry1' \<in> {training_step_one, validation_step_one, test_step_one} \<and>
    entry1 m1 tc batch i s = (Inr L, s') \<and> entry1' m1 tc batch j s = (Inr L', s'')"
  then obtain st st' where "common_step_one m1 tc batch i st s = (Inr L, s')"
    "common_step_one m1 tc batch j st' s = (Inr L', s'')"
    unfolding training_step_one_def validation_step_one_def test_step_one_def by blast
  then show "L = L'"
    by (auto elim!: common_step_one_InrE dest: loss_part_one_stage_free)
next
  assume a: "loss_part_two m2 tc batch st s = (Inr (L, x2), s1) \<and>
    common_step_two m2 tc batch i st s = (r, s')"
  note r = after_loss_two [OF conjunct1 [OF a] conjunct2 [OF a]]
  from r show "r = Inr L \<or> (\<exists>e. r = Inl e)" by simp
  from r show "grad_enabled s' = grad_enabled s1" by simp
  from r show "\<exists>evs. trace s' = trace s1 @ evs \<and> list_all sampling_no_grad evs" by simp
next
  assume a: "loss_part_one m1 tc batch st s = (Inr (L, x1), s1) \<and>
    common_step_one m1 tc batch i st s = (r, s')"
  note r = after_loss_one [OF conjunct1 [OF a] conjunct2 [OF a]]
  from r show "r = Inr L \<or> (\<exists>e. r = Inl e)" by simp
  from r show "grad_enabled s' = grad_enabled s1" by simp
  from r show "\<exists>evs. trace s' = trace s1 @ evs \<and> list_all sampling_no_grad evs" by simp
qed

theorem visualization_keeps_loss_witness:
  "fst (training_step_two (demo_two False) demo_torch demo_batch 0 demo_state) = Inr 3 \<and>
   fst (training_step_two (demo_two False) demo_torch demo_batch 7 demo_state) = Inr 3 \<and>
   fst (training_step_one demo_one demo_torch demo_batch 0 demo_state) = Inr (8 / 5) \<and>
   fst (training_step_one demo_one demo_torch demo_batch 7 demo_state) = Inr (8 / 5) \<and>
   (\<exists>evs. trace (snd (common_step_two (demo_two False) demo_torch demo_batch 0 ''train''
                        \<lparr>rng = 0, grad_enabled = True, trace = []\<rparr>)) =
            trace (snd (loss_part_two (demo_two False) demo_torch demo_batch ''train''
                        \<lparr>rng = 0, grad_enabled = True, trace = []\<rparr>)) @ evs \<and>
          length evs = 11 \<and> list_all sampling_no_grad evs) \<and>
   (\<exists>evs. trace (snd (common_step_one demo_one demo_torch demo_batch 0 ''train''
                        \<lparr>rng = 0, grad_enabled = True, trace = []\<rparr>)) =
            trace (snd (loss_part_one demo_one demo_torch demo_batch ''train''
                        \<lparr>rng = 0, grad_enabled = True, trace = []\<rparr>)) @ evs \<and>
          length evs = 11 \<and> list_all sampling_no_grad evs)"
proof -
  have m2: "training_step_two \<in> {training_step_two, validation_step_two, test_step_two}"
    and m1: "training_step_one \<in> {training_step_one, validation_step_one, test_step_one}"
    by simp_all
  obtain sa sb where r2: "training_step_two (demo_two False) demo_torch demo_batch 0 demo_state = (Inr 3, sa)"
    "training_step_two (demo_two False) demo_torch demo_batch 7 demo_state = (Inr 3, sb)"
    using demo_training_step_two_viz demo_training_step_two_plain by (metis prod.collapse)
  obtain sc sd where r1: "training_step_one demo_one demo_torch demo_batch 0 demo_state = (Inr (8 / 5), sc)"
    "training_step_one demo_one demo_torch demo_batch 7 demo_state = (Inr (8 / 5), sd)"
    using demo_training_step_one_viz demo_training_step_one_plain by (metis prod.collapse)
  note a = visualization_keeps_loss [THEN conjunct1, THEN mp,
      OF conjI [OF m2 conjI [OF m2 conjI [OF r2]]]]
  note b = visualization_keeps_loss [THEN conjunct2, THEN conjunct1, THEN mp,
      OF conjI [OF demo_loss_part_two_plain [of "''train''"] demo_common_step_two_viz]]
  note c = visualization_keeps_loss [THEN conjunct2, THEN conjunct2, THEN conjunct1, THEN mp,
      OF conjI [OF m1 conjI [OF m1 conjI [OF r1]]]]
  note d = visualization_keeps_loss [THEN conjunct2, THEN conjunct2, THEN conjunct2, THEN mp,
      OF conjI [OF demo_loss_part_one [of "''train''"] demo_common_step_one_viz]]
  from a b c d show ?thesis
    by (simp add: demo_training_step_two_viz demo_training_step_two_plain
          demo_training_step_one_viz demo_training_step_one_plain
          demo_common_step_two_viz demo_common_step_one_viz
          demo_loss_part_two_plain demo_loss_part_one)
qed

section \<open>Malformed batches\<close>

lemma appends_only_supervised_two: "appends_only False (supervised_two m img lbl rng_p ts)"
  unfolding supervised_two_def by (intro appends_only_bindE) simp_all



lemma appends_only_supervised_one:
  "appends_only False (supervised_one m img lbl rng_p ts ci cl)"
  unfolding supervised_one_def by (intro appends_only_bindE) simp_all

































section \<open>The table of cumulative alphas\<close>

lemma length_cumprod_from [simp]: "length (cumprod_from a xs) = length xs"
  by (induction xs arbitrary: a) simp_all

lemma cumprod_from_bounds:
  assumes "\<forall>x \<in> set xs. 0 \<le> x \<and> x \<le> 1" and "0 \<le> a" and "j < length xs"
  shows "0 \<le> cumprod_from a xs ! j \<and> cumprod_from a xs ! j \<le> a"
  using assms
proof (induction xs arbitrary: a j)
  case Nil
  then show ?case by simp
next
  case (Cons x xs)
  from Cons.prems have x: "0 \<le> x" "x \<le> 1" and rest: "\<forall>y \<in> set xs. 0 \<le> y \<and> y \<le> 1"
    by simp_all
  have ax: "0 \<le> a * x" "a * x \<le> a"
    using x Cons.prems(2) by (simp_all add: mult_right_le_one_le)
  show ?case
  proof (cases j)
    case 0
    with ax show ?thesis by simp
  next
    case (Suc k)
    with Cons.prems have "k < length xs" by simp
    from Cons.IH [OF rest ax(1) this] ax(2) Suc show ?thesis by simp
  qed
qed

lemma cumprod_from_antimono:
  assumes "\<forall>x \<in> set xs. 0 \<le> x \<and> x \<le> 1" and "0 \<le> a" and "i \<le> j" and "j < length xs"
  shows "cumprod_from a xs ! j \<le> cumprod_from a xs ! i"
  using assms
proof (induction xs arbitrary: a i j)
  case Nil
  then show ?case by simp
next
  case (Cons x xs)
  from Cons.prems have x: "0 \<le> x" "x \<le> 1" and rest: "\<forall>y \<in> set xs. 0 \<le> y \<and> y \<le> 1"
    by simp_all
  have ax: "0 \<le> a * x" using x Cons.prems(2) by simp
  show ?case
  proof (cases i)
    case i0: 0
    show ?thesis
    proof (cases j)
      case 0
      with i0 show ?thesis by simp
    next
      case (Suc k)
      with Cons.prems have "k < length xs" by simp
      from cumprod_from_bounds [OF rest ax this] i0 Suc show ?thesis by simp
    qed
  next
    case (Suc i')
    with Cons.prems obtain j' where j: "j = Suc j'" "i' \<le> j'" "j' < length xs"
      by (cases j) auto
    from Cons.IH [OF rest ax j(2,3)] Suc j(1) show ?thesis by simp
  qed
qed

lemma alpha_bar_nonneg: "0 \<le> alpha_bar off t"
  by (simp add: alpha_bar_def)

lemma alpha_bar_antimono:
  assumes "0 \<le> off" "0 \<le> t1" "t1 \<le> t2" "t2 \<le> 1"
  shows "alpha_bar off t2 \<le> alpha_bar off t1"
proof -
  let ?x1 = "(t1 + off) / (1 + off) * pi / 2"
  let ?x2 = "(t2 + off) / (1 + off) * pi / 2"
  have pos: "0 < 1 + off" using assms(1) by simp
  have f1: "0 \<le> (t1 + off) / (1 + off)" using assms pos by simp
  have f12: "(t1 + off) / (1 + off) \<le> (t2 + off) / (1 + off)"
    using assms pos by (simp add: divide_right_mono)
  have f2: "(t2 + off) / (1 + off) \<le> 1" using assms pos by simp
  have hp: "0 \<le> pi / 2" using pi_ge_zero by simp
  have e1: "?x1 = (t1 + off) / (1 + off) * (pi / 2)"
    and e2: "?x2 = (t2 + off) / (1 + off) * (pi / 2)" by simp_all
  have x1: "0 \<le> ?x1" unfolding e1 by (rule mult_nonneg_nonneg [OF f1 hp])
  have x12: "?x1 \<le> ?x2" unfolding e1 e2 by (rule mult_right_mono [OF f12 hp])
  have x2: "?x2 \<le> pi / 2"
  proof -
    have "(t2 + off) / (1 + off) * (pi / 2) \<le> 1 * (pi / 2)"
      by (rule mult_right_mono [OF f2 hp])
    then show ?thesis unfolding e2 by simp
  qed
  have "cos ?x2 \<le> cos ?x1"
    by (rule cos_monotone_0_pi_le [OF x1 x12]) (use x2 pi_ge_zero in linarith)
  moreover have "0 \<le> cos ?x2"
    by (rule cos_ge_zero) (use x1 x12 x2 pi_ge_zero in linarith)+
  ultimately have "(cos ?x2) ^ 2 \<le> (cos ?x1) ^ 2" by (rule power_mono)
  then show ?thesis by (simp add: alpha_bar_def)
qed

lemma betas_in_range:
  assumes "0 \<le> off" "0 \<le> max_beta" "max_beta \<le> 1"
    and "beta \<in> set (betas_for_alpha_bar T off max_beta)"
  shows "0 \<le> beta \<and> beta \<le> 1"
proof -
  from assms(4) obtain i where i: "i < T"
    and beta: "beta = min (1 - alpha_bar off (real (i + 1) / real T) / alpha_bar off (real i / real T))
                  max_beta"
    by (auto simp: betas_for_alpha_bar_def)
  let ?a1 = "alpha_bar off (real i / real T)"
  let ?a2 = "alpha_bar off (real (i + 1) / real T)"
  have T: "0 < real T" using i by simp
  have "real i / real T \<le> real (i + 1) / real T"
    using T by (simp add: divide_right_mono)
  moreover have "real (i + 1) / real T \<le> 1" using i T by simp
  moreover have "0 \<le> real i / real T" by simp
  ultimately have le: "?a2 \<le> ?a1" using assms(1) by (intro alpha_bar_antimono) simp_all
  have "?a2 / ?a1 \<le> 1"
  proof (cases "?a1 = 0")
    case True
    then show ?thesis by simp
  next
    case False
    with alpha_bar_nonneg [of off "real i / real T"] have "0 < ?a1" by simp
    with le show ?thesis by simp
  qed
  then have "0 \<le> 1 - ?a2 / ?a1" by simp
  with assms(2,3) beta show ?thesis by (simp add: min_def)
qed

lemma length_alphas_cumprod [simp]: "length (alphas_cumprod T off max_beta) = T"
  by (simp add: alphas_cumprod_def betas_for_alpha_bar_def)

lemma alphas_cumprod_antimono:
  assumes "0 \<le> off" "0 \<le> max_beta" "max_beta \<le> 1" and "s \<le> t" "t < T"
  shows "alphas_cumprod T off max_beta ! t \<le> alphas_cumprod T off max_beta ! s"
  unfolding alphas_cumprod_def
proof (rule cumprod_from_antimono)
  show "\<forall>x \<in> set (map (\<lambda>beta. 1 - beta) (betas_for_alpha_bar T off max_beta)). 0 \<le> x \<and> x \<le> 1"
    using betas_in_range [OF assms(1-3)] by auto
  show "t < length (map (\<lambda>beta. 1 - beta) (betas_for_alpha_bar T off max_beta))"
    using assms(5) by (simp add: betas_for_alpha_bar_def)
qed (use assms in simp_all)

text \<open>
  C5.  The table of cumulative alphas built with the squared-cosine-capped schedule over
  \<open>T\<close> timesteps has length \<open>T\<close> and is non-increasing: for all timesteps
  \<open>s \<le> t\<close> in \<open>[0, T)\<close>, the entry at \<open>t\<close> is at most the entry at \<open>s\<close>.
\<close>

theorem alphas_cumprod_non_increasing:
  assumes "s \<le> t" and "t < T"
  shows "length (squaredcos_cap_v2 T) = T \<and> squaredcos_cap_v2 T ! t \<le> squaredcos_cap_v2 T ! s"
  unfolding squaredcos_cap_v2_def
  using alphas_cumprod_antimono [of "8 / 1000" "999 / 1000" s t T] assms by simp

theorem alphas_cumprod_non_increasing_witness:
  "length (squaredcos_cap_v2 1000) = 1000 \<and>
   squaredcos_cap_v2 1000 ! 999 \<le> squaredcos_cap_v2 1000 ! 0"
  using alphas_cumprod_non_increasing [of 0 999 1000] by simp

section \<open>Forward noising\<close>

lemma flat_index_bound:
  fixes b j n B :: nat
  assumes "b < B" "j < n"
  shows "b * n + j < B * n"
proof -
  have "b * n + j < b * n + n" using assms(2) by simp
  also have "\<dots> = Suc b * n" by simp
  also have "\<dots> \<le> B * n" using assms(1) by (intro mult_le_mono1) simp
  finally show ?thesis .
qed

text \<open>
  C3.  For a clean tensor and a noise tensor of one shape \<open>B # rest\<close> and \<open>B\<close> timesteps
  that all lie within the table, \<^verbatim>\<open>add_noise\<close> returns a tensor of that shape whose entry
  \<open>j\<close> of sample \<open>b\<close> is
  \<open>sqrt (alpha_cumprod[ts[b]]) * clean[b, j] + sqrt (1 - alpha_cumprod[ts[b]]) * noise[b, j]\<close>:
  the coefficients of sample \<open>b\<close> are those of its own timestep.
\<close>

theorem add_noise_formula:
  assumes sh: "shape clean = B # rest" "shape noise = B # rest"
    and len: "length ts = B" "length (vals clean) = B * prod_list rest"
      "length (vals noise) = B * prod_list rest"
    and rng: "\<forall>t \<in> set ts. t < length alphas_cumprod_table"
  shows "\<exists>noisy. ddpm_add_noise alphas_cumprod_table clean noise ts = Inr noisy \<and>
           shape noisy = shape clean \<and> length (vals noisy) = B * prod_list rest \<and>
           (\<forall>b j. b < B \<and> j < prod_list rest \<longrightarrow>
              vals noisy ! (b * prod_list rest + j) =
                sqrt (alphas_cumprod_table ! (ts ! b)) * (vals clean ! (b * prod_list rest + j)) +
                sqrt (1 - alphas_cumprod_table ! (ts ! b)) * (vals noise ! (b * prod_list rest + j)))"
proof -
  let ?n = "prod_list rest"
  let ?out = "\<lparr>shape = shape clean,
      vals = map (\<lambda>k. sqrt (alphas_cumprod_table ! (ts ! (k div ?n))) * (vals clean ! k) +
                       sqrt (1 - alphas_cumprod_table ! (ts ! (k div ?n))) * (vals noise ! k))
                 [0..<length (vals clean)]\<rparr>"
  have no_idx: "\<not> (\<exists>t \<in> set ts. length alphas_cumprod_table \<le> t)"
    using rng by (auto simp: not_le)
  have run: "ddpm_add_noise alphas_cumprod_table clean noise ts = Inr ?out"
    using no_idx sh len by (simp add: ddpm_add_noise_def getitem_def Let_def)
  have entry: "vals ?out ! (b * ?n + j) =
        sqrt (alphas_cumprod_table ! (ts ! b)) * (vals clean ! (b * ?n + j)) +
        sqrt (1 - alphas_cumprod_table ! (ts ! b)) * (vals noise ! (b * ?n + j))"
    if "b < B" "j < ?n" for b j
  proof -
    from flat_index_bound [OF that] len(2) have k: "b * ?n + j < length (vals clean)" by simp
    from that(2) have d: "(b * ?n + j) div ?n = b" by simp
    from k d show ?thesis by simp
  qed
  have "shape ?out = shape clean" "length (vals ?out) = B * ?n"
    using len(2) by simp_all
  with run entry show ?thesis by blast
qed

theorem add_noise_formula_witness:
  "ddpm_add_noise [1, 1 / 4] (pixels [1, 0]) (pixels [0, 1]) [0, 1] =
     Inr \<lparr>shape = [2, 1, 1, 1],
          vals = [sqrt 1 * 1 + sqrt (1 - 1) * 0, sqrt (1 / 4) * 0 + sqrt (1 - 1 / 4) * 1]\<rparr>"
proof -
  have h: "shape (pixels [1, 0]) = 2 # [1, 1, 1]" "shape (pixels [0, 1]) = 2 # [1, 1, 1]"
    "length [0::nat, 1] = 2" "length (vals (pixels [1, 0])) = 2 * prod_list [1, 1, 1]"
    "length (vals (pixels [0, 1])) = 2 * prod_list [1, 1, 1]"
    "\<forall>t \<in> set [0::nat, 1]. t < length [1::real, 1 / 4]"
    by (simp_all add: pixels_def)
  from add_noise_formula [OF h] obtain noisy where
    n: "ddpm_add_noise [1, 1 / 4] (pixels [1, 0]) (pixels [0, 1]) [0, 1] = Inr noisy"
      "shape noisy = shape (pixels [1, 0])" "length (vals noisy) = 2 * prod_list [1, 1, 1]"
    and e: "\<And>b j. b < 2 \<Longrightarrow> j < prod_list [1::nat, 1, 1] \<Longrightarrow>
        vals noisy ! (b * prod_list [1, 1, 1] + j) =
          sqrt ([1, 1 / 4] ! ([0, 1] ! b)) * (vals (pixels [1, 0]) ! (b * prod_list [1, 1, 1] + j)) +
          sqrt (1 - [1, 1 / 4] ! ([0, 1] ! b)) * (vals (pixels [0, 1]) ! (b * prod_list [1, 1, 1] + j))"
    by blast
  from e [of 0 0] e [of 1 0] have v: "vals noisy ! 0 = sqrt 1 * 1 + sqrt (1 - 1) * 0"
    "vals noisy ! 1 = sqrt (1 / 4) * 0 + sqrt (1 - 1 / 4) * 1"
    by (simp_all add: pixels_def)
  from n(3) have l: "length (vals noisy) = 2" by simp
  have "vals noisy = [vals noisy ! 0, vals noisy ! 1]"
    using l by (cases "vals noisy"; cases "tl (vals noisy)") auto
  with v have "vals noisy = [sqrt 1 * 1 + sqrt (1 - 1) * 0, sqrt (1 / 4) * 0 + sqrt (1 - 1 / 4) * 1]"
    by simp
  moreover from n(2) have "shape noisy = [2, 1, 1, 1]" by (simp add: pixels_def)
  ultimately have "noisy = \<lparr>shape = [2, 1, 1, 1],
          vals = [sqrt 1 * 1 + sqrt (1 - 1) * 0, sqrt (1 / 4) * 0 + sqrt (1 - 1 / 4) * 1]\<rparr>"
    by (cases noisy) simp
  with n(1) show ?thesis by simp
qed

end
